theory Spec2Isabelle
  imports Complex_Main "HOL-Library.Multiset" "HOL-Library.Sublist"
begin

section \<open>Go values used by the library\<close>

text \<open>
  A Go \<open>string\<close> is a sequence of bytes and \<open>len\<close> counts bytes, so strings are
  modelled as \<^typ>\<open>string\<close> (a list of 8-bit characters) and \<open>len\<close> as
  \<^const>\<open>length\<close>. String literals of the source that contain box-drawing or block
  glyphs are written as their UTF-8 bytes.

  Go's \<open>int\<close> is a 64-bit two's complement integer. Values that the caller supplies
  (\<open>width\<close>, \<open>current\<close>, \<open>total\<close>, chart values) are modelled as \<^typ>\<open>int\<close>
  with the wrap-around of \<open>+\<close> and \<open>-\<close> written out by \<open>wrap64\<close>. Quantities
  derived from \<open>len\<close> of strings that are held in memory are far below \<open>2 ^ 63\<close>;
  their sums are written without wrap-around and the theorems about them carry the
  size bound they need as a hypothesis.
\<close>

definition maxInt :: int where
  "maxInt = 2 ^ 63 - 1"

definition wrap64 :: "int \<Rightarrow> int" where
  "wrap64 x = (x + 2 ^ 63) mod 2 ^ 64 - 2 ^ 63"

text \<open>A run-time panic of the Go program is a value of the model.\<close>

datatype panic = NegativeRepeatCount | RepeatLengthOverflow | IndexOutOfRange

text \<open>
  \<open>strings.Repeat(s, count)\<close> panics on a negative count and when
  \<open>len(s) * count\<close> does not fit an \<open>int\<close>.
\<close>

definition Repeat :: "string \<Rightarrow> int \<Rightarrow> panic + string" where
  "Repeat s cnt =
     (if cnt = 0 then Inr []
      else if cnt = 1 then Inr s
      else if cnt < 0 then Inl NegativeRepeatCount
      else if int (length s) * cnt > maxInt then Inl RepeatLengthOverflow
      else Inr (concat (replicate (nat cnt) s)))"

text \<open>Sequencing of computations that may panic: the first panic is the result.\<close>

definition bind :: "panic + 'a \<Rightarrow> ('a \<Rightarrow> panic + 'b) \<Rightarrow> panic + 'b" where
  "bind m f = (case m of Inl e \<Rightarrow> Inl e | Inr x \<Rightarrow> f x)"

text \<open>Reading \<open>xs[i]\<close> and the assignment \<open>xs[i] = v\<close> panic out of range.\<close>

definition index :: "'a list \<Rightarrow> nat \<Rightarrow> panic + 'a" where
  "index xs i = (if i < length xs then Inr (xs ! i) else Inl IndexOutOfRange)"

definition assign :: "'a list \<Rightarrow> nat \<Rightarrow> 'a \<Rightarrow> panic + 'a list" where
  "assign xs i v = (if i < length xs then Inr (xs[i := v]) else Inl IndexOutOfRange)"

text \<open>\<open>strings.Split(s, "\n")\<close>: the pieces between the newlines, never an empty list.\<close>

definition nl :: char where
  "nl = CHR 0x0A"

fun Split_nl :: "string \<Rightarrow> string list" where
  "Split_nl [] = [[]]"
| "Split_nl (c # cs) =
     (if c = nl then [] # Split_nl cs
      else (case Split_nl cs of
              [] \<Rightarrow> [[c]]
            | l # ls \<Rightarrow> (c # l) # ls))"

text \<open>\<open>strings.TrimRight(s, "\n")\<close> removes every trailing newline.\<close>

definition TrimRight_nl :: "string \<Rightarrow> string" where
  "TrimRight_nl s = rev (dropWhile (\<lambda>c. c = nl) (rev s))"

text \<open>Number of code points of a UTF-8 string: the bytes that are not continuation bytes.\<close>

definition is_continuation :: "char \<Rightarrow> bool" where
  "is_continuation c = (128 \<le> (of_char c :: nat) \<and> (of_char c :: nat) < 192)"

definition glyph_count :: "string \<Rightarrow> nat" where
  "glyph_count s = length (filter (\<lambda>c. \<not> is_continuation c) s)"

subsection \<open>Floating point\<close>

text \<open>
  A \<open>float64\<close> is an IEEE 754 binary64 value: a finite value (a rational number, with
  the negative zero apart), an infinity or a NaN. Arithmetic computes the exact rational
  result and rounds it to the nearest representable value, ties to even
  (\<open>f64_round\<close>): 53 bits of precision, exponents of the least bit from \<open>-1074\<close>,
  overflow to an infinity from \<open>2 ^ 1024\<close> on.
\<close>

datatype float64 = Finite rat | NegZero | PosInf | NegInf | NaN

text \<open>Number of binary digits of a positive integer.\<close>

function bitlen :: "int \<Rightarrow> int" where
  "bitlen n = (if n \<le> 0 then 0 else 1 + bitlen (n div 2))"
  by pat_completeness auto
termination
  by (relation "measure nat") auto

declare bitlen.simps [simp del]

definition pow2 :: "int \<Rightarrow> rat" where
  "pow2 e = (if 0 \<le> e then 2 ^ nat e else 1 / 2 ^ nat (- e))"

text \<open>\<open>ilog2 a\<close> is the exponent \<open>e\<close> with \<open>2 ^ e \<le> a < 2 ^ (e + 1)\<close>, for \<open>a > 0\<close>.\<close>

definition ilog2 :: "rat \<Rightarrow> int" where
  "ilog2 a = (if 1 \<le> a then bitlen \<lfloor>a\<rfloor> - 1 else - bitlen (\<lceil>1 / a\<rceil> - 1))"

definition round_half_even :: "rat \<Rightarrow> int" where
  "round_half_even m =
     (let f = \<lfloor>m\<rfloor>; d = m - of_int f in
      if d < 1 / 2 then f
      else if 1 / 2 < d then f + 1
      else if even f then f else f + 1)"

definition f64_round :: "rat \<Rightarrow> float64" where
  "f64_round q =
     (if q = 0 then Finite 0
      else
        let a = \<bar>q\<bar>;
            ex = max (ilog2 a - 52) (- 1074);
            n = round_half_even (a / pow2 ex);
            r = of_int n * pow2 ex
        in if 2 ^ 1024 \<le> r then (if q < 0 then NegInf else PosInf)
           else if n = 0 then (if q < 0 then NegZero else Finite 0)
           else Finite (if q < 0 then - r else r))"

text \<open>The conversion \<open>float64(i)\<close> of an integer.\<close>

definition f64_of_int :: "int \<Rightarrow> float64" where
  "f64_of_int i = f64_round (of_int i)"

fun f64_neg :: "float64 \<Rightarrow> bool" where
  "f64_neg (Finite q) = (q < 0)"
| "f64_neg NegZero = True"
| "f64_neg PosInf = False"
| "f64_neg NegInf = True"
| "f64_neg NaN = False"

fun f64_val :: "float64 \<Rightarrow> rat" where
  "f64_val (Finite q) = q"
| "f64_val NegZero = 0"
| "f64_val PosInf = 0"
| "f64_val NegInf = 0"
| "f64_val NaN = 0"

definition f64_is_inf :: "float64 \<Rightarrow> bool" where
  "f64_is_inf x = (x = PosInf \<or> x = NegInf)"

definition f64_is_zero :: "float64 \<Rightarrow> bool" where
  "f64_is_zero x = (x = Finite 0 \<or> x = NegZero)"

definition f64_zero :: "bool \<Rightarrow> float64" where
  "f64_zero neg = (if neg then NegZero else Finite 0)"

definition f64_inf :: "bool \<Rightarrow> float64" where
  "f64_inf neg = (if neg then NegInf else PosInf)"

definition f64_mul :: "float64 \<Rightarrow> float64 \<Rightarrow> float64" where
  "f64_mul x y =
     (if x = NaN \<or> y = NaN then NaN
      else if f64_is_inf x \<or> f64_is_inf y
        then (if f64_is_zero x \<or> f64_is_zero y then NaN else f64_inf (f64_neg x \<noteq> f64_neg y))
      else if f64_is_zero x \<or> f64_is_zero y then f64_zero (f64_neg x \<noteq> f64_neg y)
      else f64_round (f64_val x * f64_val y))"

definition f64_div :: "float64 \<Rightarrow> float64 \<Rightarrow> float64" where
  "f64_div x y =
     (if x = NaN \<or> y = NaN then NaN
      else if f64_is_inf x
        then (if f64_is_inf y then NaN else f64_inf (f64_neg x \<noteq> f64_neg y))
      else if f64_is_inf y then f64_zero (f64_neg x \<noteq> f64_neg y)
      else if f64_is_zero y
        then (if f64_is_zero x then NaN else f64_inf (f64_neg x \<noteq> f64_neg y))
      else if f64_is_zero x then f64_zero (f64_neg x \<noteq> f64_neg y)
      else f64_round (f64_val x / f64_val y))"

text \<open>The comparison \<open>x > y\<close>: false when either side is a NaN.\<close>

definition f64_gt :: "float64 \<Rightarrow> float64 \<Rightarrow> bool" where
  "f64_gt x y =
     (if x = NaN \<or> y = NaN then False
      else if x = PosInf then y \<noteq> PosInf
      else if y = PosInf then False
      else if x = NegInf then False
      else if y = NegInf then True
      else f64_val y < f64_val x)"

definition trunc :: "rat \<Rightarrow> int" where
  "trunc q = (if 0 \<le> q then \<lfloor>q\<rfloor> else \<lceil>q\<rceil>)"

subsection \<open>The world outside the library\<close>

text \<open>
  What the library reads from its surroundings is a parameter of the model:
  \<^item> \<open>getenv\<close> is \<open>os.Getenv\<close>: the value of an environment variable, empty when unset;
  \<^item> \<open>cvt_unrepresentable\<close> is the result of the conversion \<open>int(f)\<close> for a NaN, an
    infinity or a value outside of \<open>int\<close>, which Go leaves to the implementation.
\<close>

record runtime =
  getenv :: "string \<Rightarrow> string"
  cvt_unrepresentable :: "float64 \<Rightarrow> int"

text \<open>The conversion \<open>int(f)\<close>: the fraction is discarded (truncation towards zero).\<close>

definition f64_to_int :: "runtime \<Rightarrow> float64 \<Rightarrow> int" where
  "f64_to_int rt x =
     (case x of
        Finite q \<Rightarrow>
          if - (2 ^ 63) \<le> trunc q \<and> trunc q < 2 ^ 63 then trunc q else cvt_unrepresentable rt x
      | NegZero \<Rightarrow> 0
      | _ \<Rightarrow> cvt_unrepresentable rt x)"

subsection \<open>Formatting verbs\<close>

text \<open>Decimal digits of a natural number.\<close>

fun digits :: "nat \<Rightarrow> string" where
  "digits n =
     (if n < 10 then [''0123456789'' ! n]
      else digits (n div 10) @ [''0123456789'' ! (n mod 10)])"

declare digits.simps [simp del]

text \<open>The verb \<open>%d\<close>, and \<open>strconv.FormatInt(i, 10)\<close>.\<close>

definition fmt_d :: "int \<Rightarrow> string" where
  "fmt_d i = (if i < 0 then ''-'' @ digits (nat (- i)) else digits (nat i))"

text \<open>
  \<open>strconv.FormatFloat(x, 'f', prec, 64)\<close> and the verb \<open>%.<prec>f\<close>: the exact value
  rounded to \<open>prec\<close> decimals, ties to even.
\<close>

definition fixed :: "nat \<Rightarrow> nat \<Rightarrow> string" where
  "fixed prec n =
     (let ds = digits n;
          padded = replicate (Suc prec - length ds) CHR ''0'' @ ds;
          k = length padded - prec
      in take k padded @ (if 0 < prec then ''.'' @ drop k padded else []))"

definition FormatFloat_f :: "nat \<Rightarrow> float64 \<Rightarrow> string" where
  "FormatFloat_f prec x =
     (case x of
        NaN \<Rightarrow> ''NaN''
      | PosInf \<Rightarrow> ''+Inf''
      | NegInf \<Rightarrow> ''-Inf''
      | NegZero \<Rightarrow> ''-'' @ fixed prec 0
      | Finite q \<Rightarrow>
          (if q < 0 then ''-'' else []) @ fixed prec (nat (round_half_even (\<bar>q\<bar> * 10 ^ prec))))"

text \<open>\<open>strings.Contains(s, substr)\<close>\<close>

fun Contains :: "string \<Rightarrow> string \<Rightarrow> bool" where
  "Contains [] substr = (substr = [])"
| "Contains (c # cs) substr = (prefix substr (c # cs) \<or> Contains cs substr)"

subsection \<open>Glyphs\<close>

definition g_h :: string where "g_h = [CHR 0xE2, CHR 0x94, CHR 0x80]"
definition g_v :: string where "g_v = [CHR 0xE2, CHR 0x94, CHR 0x82]"
definition g_tl :: string where "g_tl = [CHR 0xE2, CHR 0x94, CHR 0x8C]"
definition g_tr :: string where "g_tr = [CHR 0xE2, CHR 0x94, CHR 0x90]"
definition g_bl :: string where "g_bl = [CHR 0xE2, CHR 0x94, CHR 0x94]"
definition g_br :: string where "g_br = [CHR 0xE2, CHR 0x94, CHR 0x98]"
definition g_tee_l :: string where "g_tee_l = [CHR 0xE2, CHR 0x94, CHR 0x9C]"
definition g_tee_r :: string where "g_tee_r = [CHR 0xE2, CHR 0x94, CHR 0xA4]"
definition g_cross :: string where "g_cross = [CHR 0xE2, CHR 0x94, CHR 0xBC]"
definition g_dh :: string where "g_dh = [CHR 0xE2, CHR 0x95, CHR 0x90]"
definition g_dv :: string where "g_dv = [CHR 0xE2, CHR 0x95, CHR 0x91]"
definition g_dtl :: string where "g_dtl = [CHR 0xE2, CHR 0x95, CHR 0x94]"
definition g_dtr :: string where "g_dtr = [CHR 0xE2, CHR 0x95, CHR 0x97]"
definition g_dbl :: string where "g_dbl = [CHR 0xE2, CHR 0x95, CHR 0x9A]"
definition g_dbr :: string where "g_dbr = [CHR 0xE2, CHR 0x95, CHR 0x9D]"
definition g_dtee_l :: string where "g_dtee_l = [CHR 0xE2, CHR 0x95, CHR 0xA0]"
definition g_dtee_r :: string where "g_dtee_r = [CHR 0xE2, CHR 0x95, CHR 0xA3]"
definition g_full :: string where "g_full = [CHR 0xE2, CHR 0x96, CHR 0x88]"
definition g_light :: string where "g_light = [CHR 0xE2, CHR 0x96, CHR 0x91]"

subsection \<open>Options (formatter.go)\<close>

record TerminalOptions =
  Color :: bool
  Emoji :: bool
  Width :: int
  Compact :: bool
  ShowIcons :: bool

definition DefaultTerminalWidth :: int where
  "DefaultTerminalWidth = 80"

definition DefaultOptions :: TerminalOptions where
  "DefaultOptions =
     \<lparr>Color = True, Emoji = True, Width = DefaultTerminalWidth, Compact = False,
      ShowIcons = True\<rparr>"

section \<open>Styles: colours, symbols and the confidence bar\<close>

text \<open>
  The options are passed by pointer in the source; the model takes the record, so it
  covers the calls with a pointer that is not \<open>nil\<close>.
\<close>

definition ConfidenceBarLength :: int where
  "ConfidenceBarLength = 10"

definition esc :: "string \<Rightarrow> string" where
  "esc code = CHR 0x1B # ''['' @ code @ ''m''"

definition Reset :: string where "Reset = esc ''0''"
definition Bold :: string where "Bold = esc ''1''"
definition Dim :: string where "Dim = esc ''2''"
definition Italic :: string where "Italic = esc ''3''"
definition Red :: string where "Red = esc ''31''"
definition Green :: string where "Green = esc ''32''"
definition Yellow :: string where "Yellow = esc ''33''"
definition Blue :: string where "Blue = esc ''34''"
definition Magenta :: string where "Magenta = esc ''35''"
definition Cyan :: string where "Cyan = esc ''36''"
definition White :: string where "White = esc ''37''"
definition BrightBlack :: string where "BrightBlack = esc ''90''"

text \<open>
  \<open>getEmojiMap\<close>: the map literal as the list of its entries (key, emoji, fallback);
  the emoji are written as their UTF-8 bytes. The keys of a Go map literal are distinct.
\<close>

definition getEmojiMap :: "(string \<times> string \<times> string) list" where
  "getEmojiMap =
     [(''error'', [CHR 0xE2, CHR 0x9D, CHR 0x8C], ''[ERR]''),
      (''warning'', [CHR 0xE2, CHR 0x9A, CHR 0xA0, CHR 0xEF, CHR 0xB8, CHR 0x8F], ''[WRN]''),
      (''info'', [CHR 0xE2, CHR 0x84, CHR 0xB9, CHR 0xEF, CHR 0xB8, CHR 0x8F], ''[INF]''),
      (''success'', [CHR 0xE2, CHR 0x9C, CHR 0x85], ''[OK]''),
      (''insight'', [CHR 0xF0, CHR 0x9F, CHR 0x92, CHR 0xA1], ''[INS]''),
      (''pattern'', [CHR 0xF0, CHR 0x9F, CHR 0x94, CHR 0x8D], ''[PAT]''),
      (''statistics'', [CHR 0xF0, CHR 0x9F, CHR 0x93, CHR 0x8A], ''[STATS]''),
      (''recommendations'', [CHR 0xF0, CHR 0x9F, CHR 0x93, CHR 0x8B], ''[REC]''),
      (''rocket'', [CHR 0xF0, CHR 0x9F, CHR 0x9A, CHR 0x80], ''[LOG]''),
      (''error_pattern'', [CHR 0xF0, CHR 0x9F, CHR 0x94, CHR 0xB4], ''[ERR]''),
      (''anomaly_pattern'', [CHR 0xF0, CHR 0x9F, CHR 0x9F, CHR 0xA1], ''[ANO]''),
      (''perf_pattern'', [CHR 0xE2, CHR 0x9A, CHR 0xA0, CHR 0xEF, CHR 0xB8, CHR 0x8F], ''[PRF]''),
      (''security_pattern'', [CHR 0xF0, CHR 0x9F, CHR 0x94, CHR 0x92], ''[SEC]''),
      (''help'', [CHR 0xE2, CHR 0x9D, CHR 0x93], ''[?]''),
      (''target'', [CHR 0xF0, CHR 0x9F, CHR 0x8E, CHR 0xAF], ''[>]''),
      (''brain'', [CHR 0xF0, CHR 0x9F, CHR 0xA7, CHR 0xA0], ''[AI]''),
      (''tag'', [CHR 0xF0, CHR 0x9F, CHR 0x8F, CHR 0xB7, CHR 0xEF, CHR 0xB8, CHR 0x8F], ''[TAG]''),
      (''scale'', [CHR 0xE2, CHR 0x9A, CHR 0x96, CHR 0xEF, CHR 0xB8, CHR 0x8F], ''[BAL]''),
      (''door'', [CHR 0xF0, CHR 0x9F, CHR 0x9A, CHR 0xAA], ''[EXIT]''),
      (''number'', [CHR 0xF0, CHR 0x9F, CHR 0x94, CHR 0xA2], ''[#]''),
      (''patterns'', [CHR 0xF0, CHR 0x9F, CHR 0x94, CHR 0x8D], ''[PAT]''),
      (''insights'', [CHR 0xF0, CHR 0x9F, CHR 0x92, CHR 0xA1], ''[INS]''),
      (''clock'', [CHR 0xE2, CHR 0x8F, CHR 0xB0], ''[TIME]''),
      (''chart'', [CHR 0xF0, CHR 0x9F, CHR 0x93, CHR 0x8A], ''[CHART]''),
      (''list'', [CHR 0xF0, CHR 0x9F, CHR 0x93, CHR 0x9D], ''[LIST]'')]"

record ColorProfile =
  Error :: string
  Warning :: string
  Info :: string
  Success :: string
  Accent :: string
  Muted :: string

definition DefaultColorProfile :: ColorProfile where
  "DefaultColorProfile =
     \<lparr>Error = Red, Warning = Yellow, Info = Blue, Success = Green, Accent = Cyan,
      Muted = BrightBlack\<rparr>"

definition colorTerms :: "string list" where
  "colorTerms =
     [''xterm'', ''xterm-256color'', ''xterm-color'', ''screen'', ''screen-256color'',
      ''tmux'', ''tmux-256color'', ''rxvt'', ''rxvt-unicode'', ''linux'', ''ansi'']"

definition supportsColor :: "runtime \<Rightarrow> bool" where
  "supportsColor rt =
     (let term = getenv rt ''TERM'' in
      if term = [] then False
      else if list_ex (\<lambda>colorTerm. Contains term colorTerm) colorTerms then True
      else if getenv rt ''NO_COLOR'' \<noteq> [] then False
      else if getenv rt ''FORCE_COLOR'' \<noteq> [] then True
      else False)"

definition supportsEmoji :: "runtime \<Rightarrow> bool" where
  "supportsEmoji rt =
     (let term = getenv rt ''TERM'' in
      if Contains term ''256color'' then True
      else if getenv rt ''TERM_PROGRAM'' \<noteq> [] then True
      else False)"

definition Colorize :: "runtime \<Rightarrow> string \<Rightarrow> string \<Rightarrow> TerminalOptions \<Rightarrow> string" where
  "Colorize rt text color opts =
     (if \<not> Color opts \<or> \<not> supportsColor rt then text else color @ text @ Reset)"

definition ColorizeWithProfile ::
  "runtime \<Rightarrow> string \<Rightarrow> string \<Rightarrow> ColorProfile \<Rightarrow> TerminalOptions \<Rightarrow> string" where
  "ColorizeWithProfile rt text colorType profile opts =
     (if \<not> Color opts \<or> \<not> supportsColor rt then text
      else if colorType = ''error'' then Error profile @ text @ Reset
      else if colorType = ''warning'' then Warning profile @ text @ Reset
      else if colorType = ''info'' then Info profile @ text @ Reset
      else if colorType = ''success'' then Success profile @ text @ Reset
      else if colorType = ''accent'' then Accent profile @ text @ Reset
      else if colorType = ''muted'' then Muted profile @ text @ Reset
      else text)"

definition GetEmoji :: "runtime \<Rightarrow> string \<Rightarrow> TerminalOptions \<Rightarrow> string" where
  "GetEmoji rt key opts =
     (case map_of getEmojiMap key of
        Some (emoji, fallback) \<Rightarrow>
          if \<not> Emoji opts then fallback
          else if \<not> supportsEmoji rt then fallback
          else emoji
      | None \<Rightarrow> ''[?]'')"

definition GetSymbol :: "runtime \<Rightarrow> string \<Rightarrow> TerminalOptions \<Rightarrow> string" where
  "GetSymbol rt key opts = GetEmoji rt key opts"

text \<open>
  \<open>CreateConfidenceBar\<close>: the loop \<open>for i := range ConfidenceBarLength\<close> writes one rune
  per index \<open>0, ..., 9\<close>.
\<close>

fun confidenceCells :: "string \<Rightarrow> int \<Rightarrow> string \<Rightarrow> string \<Rightarrow> int list \<Rightarrow> string" where
  "confidenceCells b barLength filled unfilled [] = b"
| "confidenceCells b barLength filled unfilled (i # is) =
     confidenceCells (if i < barLength then b @ filled else b @ unfilled) barLength filled unfilled is"

definition CreateConfidenceBar :: "runtime \<Rightarrow> float64 \<Rightarrow> TerminalOptions \<Rightarrow> string" where
  "CreateConfidenceBar rt confidence opts =
     (let barLength = f64_to_int rt (f64_mul confidence (f64_of_int ConfidenceBarLength));
          (filled, unfilled) =
            (if Emoji opts \<and> supportsEmoji rt then (g_full, g_light) else (''#'', ''-''));
          b1 = (if \<not> Emoji opts then ''['' else []);
          b2 = confidenceCells b1 barLength filled unfilled [0..ConfidenceBarLength - 1]
      in if \<not> Emoji opts then b2 @ '']'' else b2)"

text \<open>\<open>Stylize\<close>: the codes of the known style names, in order of the \<open>styles\<close> slice.\<close>

definition styleCode :: "string \<Rightarrow> string option" where
  "styleCode style =
     (if style = ''bold'' then Some Bold
      else if style = ''dim'' then Some Dim
      else if style = ''italic'' then Some Italic
      else if style = ''red'' then Some Red
      else if style = ''green'' then Some Green
      else if style = ''yellow'' then Some Yellow
      else if style = ''blue'' then Some Blue
      else if style = ''magenta'' then Some Magenta
      else if style = ''cyan'' then Some Cyan
      else if style = ''white'' then Some White
      else None)"

fun styleCodes :: "string list \<Rightarrow> string list \<Rightarrow> string list" where
  "styleCodes codes [] = codes"
| "styleCodes codes (style # styles) =
     styleCodes (case styleCode style of Some c \<Rightarrow> codes @ [c] | None \<Rightarrow> codes) styles"

definition Stylize :: "runtime \<Rightarrow> string \<Rightarrow> string list \<Rightarrow> TerminalOptions \<Rightarrow> string" where
  "Stylize rt text styles opts =
     (if \<not> Color opts \<or> \<not> supportsColor rt then text
      else
        let codes = styleCodes [] styles in
        if length codes = 0 then text else concat codes @ text @ Reset)"

definition Header :: "runtime \<Rightarrow> string \<Rightarrow> TerminalOptions \<Rightarrow> string" where
  "Header rt title opts =
     (if Color opts \<and> supportsColor rt then Stylize rt title [''bold'', ''cyan''] opts else title)"

definition MutedText :: "runtime \<Rightarrow> string \<Rightarrow> TerminalOptions \<Rightarrow> string" where
  "MutedText rt text opts =
     (if Color opts \<and> supportsColor rt then Stylize rt text [''dim''] opts else text)"

definition SuccessText :: "runtime \<Rightarrow> string \<Rightarrow> TerminalOptions \<Rightarrow> string" where
  "SuccessText rt text opts =
     (if Color opts \<and> supportsColor rt then Stylize rt text [''green''] opts else text)"

text \<open>
  Two surroundings for concrete runs: a process with no environment variable set, and one
  in a terminal that announces 256 colours. Both convert an unrepresentable floating
  point value to the least \<open>int\<close>, as the amd64 instruction does.
\<close>

definition plain_runtime :: runtime where
  "plain_runtime = \<lparr>getenv = (\<lambda>name. []), cvt_unrepresentable = (\<lambda>x. - (2 ^ 63))\<rparr>"

definition xterm_runtime :: runtime where
  "xterm_runtime =
     \<lparr>getenv = (\<lambda>name. if name = ''TERM'' then ''xterm-256color'' else []),
      cvt_unrepresentable = (\<lambda>x. - (2 ^ 63))\<rparr>"

text \<open>
  The confidence bar in closed form: ten cells, the first \<open>k\<close> of them filled, where
  \<open>k\<close> is the converted product \<open>int(confidence * 10)\<close> cut to the range from 0 to 10.
\<close>

definition spec_bar :: "string \<Rightarrow> string \<Rightarrow> nat \<Rightarrow> string" where
  "spec_bar filled unfilled k = concat (replicate k filled) @ concat (replicate (10 - k) unfilled)"

definition filledCells :: "runtime \<Rightarrow> float64 \<Rightarrow> nat" where
  "filledCells rt confidence =
     nat (min 10 (max 0 (f64_to_int rt (f64_mul confidence (Finite 10)))))"

text \<open>
  The confidence bar as the specification words it: \<open>floor(confidence * 10)\<close> filled
  cells, block glyphs without brackets whenever emoji are enabled in the options, \<open>#\<close>
  and \<open>-\<close> in brackets otherwise.
\<close>

definition claimed_ConfidenceBar :: "rat \<Rightarrow> TerminalOptions \<Rightarrow> string" where
  "claimed_ConfidenceBar confidence opts =
     (if Emoji opts then spec_bar g_full g_light (nat \<lfloor>confidence * 10\<rfloor>)
      else ''['' @ spec_bar ''#'' ''-'' (nat \<lfloor>confidence * 10\<rfloor>) @ '']'')"

section \<open>Components (components.go)\<close>

definition borderPadding :: int where "borderPadding = 2"
definition labelSpacing :: int where "labelSpacing = 10"
definition progressSpacing :: int where "progressSpacing = 20"
definition tableRowPadding :: int where "tableRowPadding = 2"
definition percentMultiplier :: int where "percentMultiplier = 100"

subsection \<open>Box\<close>

text \<open>The loop \<open>for _, line := range lines { if len(line) > maxLen { maxLen = len(line) } }\<close>.\<close>

fun maxLineLen :: "int \<Rightarrow> string list \<Rightarrow> int" where
  "maxLineLen maxLen [] = maxLen"
| "maxLineLen maxLen (line # lines) =
     maxLineLen (if int (length line) > maxLen then int (length line) else maxLen) lines"

text \<open>
  The loop that writes the content lines; \<open>b\<close> is the builder's content so far,
  \<open>l\<close> and \<open>r\<close> are the border strings of the box at hand.
\<close>

fun boxLines :: "string \<Rightarrow> string \<Rightarrow> string \<Rightarrow> int \<Rightarrow> string list \<Rightarrow> panic + string" where
  "boxLines b l r maxLen [] = Inr b"
| "boxLines b l r maxLen (line # lines) =
     bind (Repeat '' '' (maxLen - int (length line))) (\<lambda>pad.
       boxLines (b @ l @ line @ pad @ r) l r maxLen lines)"

definition simpleBox :: "string \<Rightarrow> panic + string" where
  "simpleBox content =
     (let lines = Split_nl content in
      if length lines = 0 then Inr []
      else
        let maxLen = maxLineLen 0 lines in
        bind (Repeat g_h (maxLen + borderPadding)) (\<lambda>top.
        bind (boxLines (g_tl @ top @ g_tr @ [nl]) (g_v @ '' '') ('' '' @ g_v @ [nl]) maxLen lines)
          (\<lambda>b.
        bind (Repeat g_h (maxLen + borderPadding)) (\<lambda>bottom.
        Inr (b @ g_bl @ bottom @ g_br)))))"

definition titledBox :: "string \<Rightarrow> string \<Rightarrow> panic + string" where
  "titledBox title content =
     (let titleLen = int (length title);
          lines = Split_nl content;
          maxLen = maxLineLen (titleLen + borderPadding) lines in
      bind (Repeat g_dh (maxLen + borderPadding)) (\<lambda>top.
      bind (Repeat '' '' (maxLen - titleLen)) (\<lambda>tpad.
      bind (Repeat g_dh (maxLen + borderPadding)) (\<lambda>sep.
      bind (boxLines (g_dtl @ top @ g_dtr @ [nl]
                      @ g_dv @ '' '' @ title @ tpad @ '' '' @ g_dv @ [nl]
                      @ g_dtee_l @ sep @ g_dtee_r @ [nl])
              (g_dv @ '' '') ('' '' @ g_dv @ [nl]) maxLen lines) (\<lambda>b.
      bind (Repeat g_dh (maxLen + borderPadding)) (\<lambda>bottom.
      Inr (b @ g_dbl @ bottom @ g_dbr)))))))"

text \<open>
  The untitled box as the specification words it: a border row of the longest line's
  length plus two rule glyphs between the corners, and every content line padded with
  spaces to that length between \<open>"| "\<close> and \<open>" |"\<close>.
\<close>

definition longestLine :: "string \<Rightarrow> nat" where
  "longestLine content = Max (length ` set (Split_nl content))"

definition spec_border :: "string \<Rightarrow> string \<Rightarrow> nat \<Rightarrow> string" where
  "spec_border l r w = l @ concat (replicate (w + 2) g_h) @ r"

definition spec_row :: "nat \<Rightarrow> string \<Rightarrow> string" where
  "spec_row w line = g_v @ '' '' @ (line @ replicate (w - length line) CHR '' '') @ '' '' @ g_v"

definition spec_simpleBox :: "string \<Rightarrow> string" where
  "spec_simpleBox content =
     (let w = longestLine content in
      spec_border g_tl g_tr w @ [nl]
      @ concat (map (\<lambda>line. spec_row w line @ [nl]) (Split_nl content))
      @ spec_border g_bl g_br w)"

definition BoxWithOptions :: "string \<Rightarrow> string \<Rightarrow> TerminalOptions \<Rightarrow> panic + string" where
  "BoxWithOptions title content opts =
     (if title = [] then simpleBox content else titledBox title content)"

definition Box :: "string \<Rightarrow> string \<Rightarrow> panic + string" where
  "Box title content = BoxWithOptions title content DefaultOptions"

subsection \<open>Table\<close>

text \<open>\<open>for i, header := range headers { colWidths[i] = len(header) }\<close>\<close>

fun initWidths :: "int list \<Rightarrow> nat \<Rightarrow> string list \<Rightarrow> panic + int list" where
  "initWidths cw i [] = Inr cw"
| "initWidths cw i (header # hs) =
     bind (assign cw i (int (length header))) (\<lambda>cw'. initWidths cw' (Suc i) hs)"

text \<open>
  \<open>for i, cell := range row { if i < len(colWidths) && len(cell) > colWidths[i] {
  colWidths[i] = len(cell) } }\<close>
\<close>

fun widenRow :: "int list \<Rightarrow> nat \<Rightarrow> string list \<Rightarrow> panic + int list" where
  "widenRow cw i [] = Inr cw"
| "widenRow cw i (cell # cells) =
     bind (if i < length cw
           then bind (index cw i) (\<lambda>w.
                  if int (length cell) > w then assign cw i (int (length cell)) else Inr cw)
           else Inr cw)
       (\<lambda>cw'. widenRow cw' (Suc i) cells)"

fun widenRows :: "int list \<Rightarrow> string list list \<Rightarrow> panic + int list" where
  "widenRows cw [] = Inr cw"
| "widenRows cw (row # rows) = bind (widenRow cw 0 row) (\<lambda>cw'. widenRows cw' rows)"

text \<open>The column widths as they stand after the two loops of \<open>TableWithOptions\<close>.\<close>

definition tableColWidths :: "string list \<Rightarrow> string list list \<Rightarrow> panic + int list" where
  "tableColWidths headers rows =
     bind (initWidths (replicate (length headers) 0) 0 headers) (\<lambda>cw. widenRows cw rows)"

fun headerCells :: "string \<Rightarrow> int list \<Rightarrow> nat \<Rightarrow> string list \<Rightarrow> panic + string" where
  "headerCells b cw i [] = Inr b"
| "headerCells b cw i (header # hs) =
     bind (index cw i) (\<lambda>w.
     bind (Repeat '' '' (w - int (length header))) (\<lambda>pad.
     headerCells (b @ '' '' @ header @ pad @ '' '' @ g_v) cw (Suc i) hs))"

text \<open>
  \<open>for i, width := range colWidths { ...Repeat("-", width+tableRowPadding);
  if i < len(colWidths)-1 { ...cross } }\<close>; \<open>n\<close> is \<open>len(colWidths)\<close>.
\<close>

fun sepCells :: "string \<Rightarrow> int \<Rightarrow> nat \<Rightarrow> int list \<Rightarrow> panic + string" where
  "sepCells b n i [] = Inr b"
| "sepCells b n i (width # ws) =
     bind (Repeat g_h (width + tableRowPadding)) (\<lambda>rule.
     sepCells (if int i < n - 1 then b @ rule @ g_cross else b @ rule) n (Suc i) ws)"

fun dataCells :: "string \<Rightarrow> int list \<Rightarrow> nat \<Rightarrow> string list \<Rightarrow> panic + string" where
  "dataCells b cw i [] = Inr b"
| "dataCells b cw i (cell # cells) =
     (if i < length cw
      then bind (index cw i) (\<lambda>w.
           bind (Repeat '' '' (w - int (length cell))) (\<lambda>pad.
           dataCells (b @ '' '' @ cell @ pad @ '' '' @ g_v) cw (Suc i) cells))
      else dataCells b cw (Suc i) cells)"

fun dataRows :: "string \<Rightarrow> int list \<Rightarrow> string list list \<Rightarrow> panic + string" where
  "dataRows b cw [] = Inr b"
| "dataRows b cw (row # rows) =
     bind (dataCells (b @ g_v) cw 0 row) (\<lambda>b'. dataRows (b' @ [nl]) cw rows)"

text \<open>
  The table as the specification words it. The width of column \<open>i\<close> is the maximum of
  the header's length and the lengths of the cells at index \<open>i\<close> of the rows that have
  one; the cells of a row are matched with the columns by index (\<open>zip\<close> stops at the
  shorter of the two, so missing cells are absent and cells beyond the last column are
  not drawn).
\<close>

definition colCells :: "string list list \<Rightarrow> nat \<Rightarrow> int set" where
  "colCells rows i = (\<lambda>row. int (length (row ! i))) ` set (filter (\<lambda>row. i < length row) rows)"

definition spec_colWidth :: "string list \<Rightarrow> string list list \<Rightarrow> nat \<Rightarrow> int" where
  "spec_colWidth headers rows i = Max (insert (int (length (headers ! i))) (colCells rows i))"

definition spec_cell :: "int \<Rightarrow> string \<Rightarrow> string" where
  "spec_cell w s = '' '' @ s @ replicate (nat w - length s) CHR '' '' @ '' '' @ g_v"

definition spec_cells :: "int list \<Rightarrow> string list \<Rightarrow> string" where
  "spec_cells ws cells = concat (map (\<lambda>(w, s). spec_cell w s) (zip ws cells))"

fun spec_sep :: "int list \<Rightarrow> string" where
  "spec_sep [] = []"
| "spec_sep [w] = concat (replicate (nat (w + 2)) g_h)"
| "spec_sep (w # w' # ws) = concat (replicate (nat (w + 2)) g_h) @ g_cross @ spec_sep (w' # ws)"

definition spec_table :: "string list \<Rightarrow> string list list \<Rightarrow> string" where
  "spec_table headers rows =
     (let ws = map (spec_colWidth headers rows) [0..<length headers] in
      g_v @ spec_cells ws headers @ [nl]
      @ g_tee_l @ spec_sep ws @ g_tee_r @ [nl]
      @ concat (map (\<lambda>row. g_v @ spec_cells ws row @ [nl]) rows))"

definition fits :: "string list \<Rightarrow> string list list \<Rightarrow> bool" where
  "fits headers rows =
     ((\<forall>h \<in> set headers. length h < 2 ^ 61) \<and>
      (\<forall>row \<in> set rows. \<forall>cell \<in> set row. length cell < 2 ^ 61))"

definition TableWithOptions ::
  "string list \<Rightarrow> string list list \<Rightarrow> TerminalOptions \<Rightarrow> panic + string" where
  "TableWithOptions headers rows opts =
     (if length headers = 0 then Inr []
      else
        bind (tableColWidths headers rows) (\<lambda>colWidths.
        bind (headerCells g_v colWidths 0 headers) (\<lambda>b1.
        bind (sepCells (b1 @ [nl] @ g_tee_l) (int (length colWidths)) 0 colWidths) (\<lambda>b2.
        bind (dataRows (b2 @ g_tee_r @ [nl]) colWidths rows) (\<lambda>b3.
        Inr (TrimRight_nl b3))))))"

definition Table :: "string list \<Rightarrow> string list list \<Rightarrow> panic + string" where
  "Table headers rows = TableWithOptions headers rows DefaultOptions"

subsection \<open>Bar chart\<close>

text \<open>
  The data is a Go map, and the order in which a \<open>range\<close> statement visits the entries
  of a map is not specified: it may differ from one loop to the next. The function is
  modelled in two steps. \<open>BarChartWithOptions_iter\<close> is the function's body, given the
  sequences \<open>es1\<close> and \<open>es2\<close> in which its first and its second \<open>range\<close> loop visit
  the entries; \<open>BarChartWithOptions\<close> is the set of results it can return for a map, one
  for each pair of sequences that enumerate the map.
\<close>

fun chartScan :: "int \<Rightarrow> int \<Rightarrow> (string \<times> int) list \<Rightarrow> int \<times> int" where
  "chartScan maxValue maxLabelLen [] = (maxValue, maxLabelLen)"
| "chartScan maxValue maxLabelLen ((label, val) # es) =
     chartScan (if val > maxValue then val else maxValue)
       (if int (length label) > maxLabelLen then int (length label) else maxLabelLen) es"

text \<open>What one round of the second loop writes to the builder.\<close>

definition chartEntry ::
  "runtime \<Rightarrow> int \<Rightarrow> int \<Rightarrow> int \<Rightarrow> TerminalOptions \<Rightarrow> string \<times> int \<Rightarrow> panic + string" where
  "chartEntry rt maxValue maxLabelLen barWidth opts e =
     (case e of (label, val) \<Rightarrow>
        bind (Repeat '' '' (maxLabelLen - int (length label))) (\<lambda>pad.
        let barLength =
              f64_to_int rt
                (f64_mul (f64_div (f64_of_int val) (f64_of_int maxValue)) (f64_of_int barWidth))
        in
        bind (Repeat (if Emoji opts then g_full else ''#'') barLength) (\<lambda>filled.
        bind (Repeat (if Emoji opts then g_light else ''-'') (wrap64 (barWidth - barLength)))
          (\<lambda>unfilled.
        Inr (label @ pad @ '' '' @ g_v @ filled @ unfilled @ g_v @ '' '' @ fmt_d val @ [nl])))))"

fun chartLines ::
  "runtime \<Rightarrow> int \<Rightarrow> int \<Rightarrow> int \<Rightarrow> TerminalOptions \<Rightarrow> string \<Rightarrow> (string \<times> int) list
   \<Rightarrow> panic + string" where
  "chartLines rt maxValue maxLabelLen barWidth opts b [] = Inr b"
| "chartLines rt maxValue maxLabelLen barWidth opts b (e # es) =
     bind (chartEntry rt maxValue maxLabelLen barWidth opts e) (\<lambda>line.
     chartLines rt maxValue maxLabelLen barWidth opts (b @ line) es)"

definition BarChartWithOptions_iter ::
  "runtime \<Rightarrow> (string \<times> int) list \<Rightarrow> (string \<times> int) list \<Rightarrow> int \<Rightarrow> TerminalOptions
   \<Rightarrow> panic + string" where
  "BarChartWithOptions_iter rt es1 es2 width opts =
     (if length es1 = 0 then Inr []
      else
        case chartScan 0 0 es1 of (maxValue, maxLabelLen) \<Rightarrow>
        if maxValue = 0 then Inr []
        else
          let barWidth = wrap64 (wrap64 (width - maxLabelLen) - labelSpacing) in
          bind (chartLines rt maxValue maxLabelLen barWidth opts [] es2) (\<lambda>b.
          Inr (TrimRight_nl b)))"

definition iterations :: "(string \<rightharpoonup> int) \<Rightarrow> (string \<times> int) list set" where
  "iterations data = {es. distinct (map fst es) \<and> map_of es = data}"

definition BarChartWithOptions ::
  "runtime \<Rightarrow> (string \<rightharpoonup> int) \<Rightarrow> int \<Rightarrow> TerminalOptions \<Rightarrow> (panic + string) set" where
  "BarChartWithOptions rt data width opts =
     {BarChartWithOptions_iter rt es1 es2 width opts | es1 es2.
        es1 \<in> iterations data \<and> es2 \<in> iterations data}"

definition BarChart :: "runtime \<Rightarrow> (string \<rightharpoonup> int) \<Rightarrow> int \<Rightarrow> (panic + string) set" where
  "BarChart rt data width = BarChartWithOptions rt data width DefaultOptions"




subsection \<open>Tree view\<close>

datatype TreeItem =
  TreeItem (Label: string) (Value: string) (Children: "TreeItem list") (Last: bool)

text \<open>
  \<open>renderTreeItems\<close>: the loop \<open>for i, item := range items\<close> at index \<open>i\<close> of
  \<open>n = len(items)\<close> items, with the builder's content \<open>b\<close> passed along. The
  options argument is unused by the source (it is named \<open>_\<close>), and \<open>nil\<close> in the
  recursive call.
\<close>

fun renderLoop :: "string \<Rightarrow> int \<Rightarrow> int \<Rightarrow> TreeItem list \<Rightarrow> string \<Rightarrow> string" where
  "renderLoop b n i [] pfx = b"
| "renderLoop b n i (TreeItem label val children lst # rest) pfx =
     (let isLast = (i = n - 1);
          itemPrefix = (if isLast then g_bl @ g_h @ '' '' else g_tee_l @ g_h @ '' '');
          childPrefix = (if isLast then ''   '' else g_v @ ''  '');
          b1 = b @ pfx @ itemPrefix @ label;
          b2 = (if val \<noteq> [] then b1 @ '': '' @ val else b1);
          b3 = b2 @ [nl];
          b4 = (if length children > 0
                then renderLoop b3 (int (length children)) 0 children (pfx @ childPrefix)
                else b3)
      in renderLoop b4 n (i + 1) rest pfx)"

definition renderTreeItems :: "string \<Rightarrow> TreeItem list \<Rightarrow> string \<Rightarrow> string" where
  "renderTreeItems b items pfx = renderLoop b (int (length items)) 0 items pfx"

definition TreeViewWithOptions :: "TreeItem list \<Rightarrow> TerminalOptions \<Rightarrow> string" where
  "TreeViewWithOptions items opts = TrimRight_nl (renderTreeItems [] items [])"

definition TreeView :: "TreeItem list \<Rightarrow> string" where
  "TreeView items = TreeViewWithOptions items DefaultOptions"

subsection \<open>Progress bar\<close>

definition ProgressBarWithOptions ::
  "runtime \<Rightarrow> int \<Rightarrow> int \<Rightarrow> int \<Rightarrow> TerminalOptions \<Rightarrow> panic + string" where
  "ProgressBarWithOptions rt current tot width opts =
     (if tot \<le> 0 then Inr []
      else
        let p = f64_div (f64_of_int current) (f64_of_int tot);
            percentage = (if f64_gt p (Finite 1) then Finite 1 else p);
            barWidth = wrap64 (width - progressSpacing);
            filledWidth = f64_to_int rt (f64_mul percentage (f64_of_int barWidth))
        in
        bind (Repeat (if Emoji opts then g_full else ''#'') filledWidth) (\<lambda>filled.
        bind (Repeat (if Emoji opts then g_light else ''-'') (wrap64 (barWidth - filledWidth)))
          (\<lambda>unfilled.
        Inr (''['' @ filled @ unfilled @ ''] ''
             @ FormatFloat_f 1 (f64_mul percentage (f64_of_int percentMultiplier))
             @ ''% ('' @ fmt_d current @ ''/'' @ fmt_d tot @ '')''))))"

definition ProgressBar :: "runtime \<Rightarrow> int \<Rightarrow> int \<Rightarrow> int \<Rightarrow> panic + string" where
  "ProgressBar rt current tot width = ProgressBarWithOptions rt current tot width DefaultOptions"

text \<open>
  The tree as the specification words it, by position among the siblings only: the final
  sibling is drawn with the corner glyph and its subtree continues under three spaces,
  every other sibling with the tee glyph and its subtree continues under a bar and two
  spaces. The \<open>Last\<close> field is not read.
\<close>

fun spec_tree :: "string \<Rightarrow> TreeItem list \<Rightarrow> string" where
  "spec_tree pfx [] = []"
| "spec_tree pfx [TreeItem label val children lst] =
     pfx @ g_bl @ g_h @ '' '' @ label @ (if val = [] then [] else '': '' @ val) @ [nl]
     @ spec_tree (pfx @ ''   '') children"
| "spec_tree pfx (TreeItem label val children lst # next # rest) =
     pfx @ g_tee_l @ g_h @ '' '' @ label @ (if val = [] then [] else '': '' @ val) @ [nl]
     @ spec_tree (pfx @ g_v @ ''  '') children @ spec_tree pfx (next # rest)"

text \<open>Two item sequences differ only in their \<open>Last\<close> fields when erasing them makes them equal.\<close>

fun eraseLast :: "TreeItem \<Rightarrow> TreeItem" where
  "eraseLast (TreeItem label val children lst) =
     TreeItem label val (map eraseLast children) False"

section \<open>Terminal formatter (terminal.go)\<close>

definition MaxFieldLength :: nat where
  "MaxFieldLength = 50"

subsection \<open>The values that are formatted\<close>

text \<open>
  A value as the formatter sees it through reflection: its kind, with what the formatter
  reads of it. Integers of all widths print alike; of a slice, an array or a map only
  the length is read; a pointer or an interface is \<open>nil\<close> or holds a value; a struct has
  the name of its type and its fields (name, exported or not, value); of a complex
  number, a channel and a function the formatter prints the text of the value or type,
  which the value carries.
\<close>

datatype rvalue =
    RInvalid
  | RBool bool
  | RInt int
  | RUint nat
  | RUintptr nat
  | RFloat float64
  | RComplex string
  | RString string
  | RSlice nat
  | RMap nat
  | RPtr "rvalue option"
  | RInterface "rvalue option"
  | RStruct string "(string \<times> bool \<times> rvalue) list"
  | RChan string
  | RFunc string
  | RUnsafePointer nat

text \<open>
  The argument of \<open>Format\<close>, an \<open>interface{}\<close>, by the cases of its type switch: \<open>nil\<close>,
  a \<open>map[string]interface{}\<close> (its entries in the order in which \<open>range\<close> visits them),
  a \<open>[]interface{}\<close>, a \<open>string\<close>, and a value of any other type.
\<close>

datatype iface =
    INil
  | IMap "(string \<times> iface) list"
  | ISlice "iface list"
  | IString string
  | IOther rvalue

text \<open>
  Parts of Go's standard library that the formatter calls and that are taken as given:
  the table of printable runes above Latin-1 behind \<open>strconv.IsPrint\<close>, the verb \<open>%v\<close>,
  and \<open>json.MarshalIndent\<close> (the text, or the message of its error).
\<close>

record library =
  isPrint :: "nat \<Rightarrow> bool"
  sprint_v :: "iface \<Rightarrow> string"
  marshalIndent :: "rvalue \<Rightarrow> string + string"

subsection \<open>The verb \<open>%q\<close>: strconv.Quote\<close>

fun hexdigits :: "nat \<Rightarrow> string" where
  "hexdigits n =
     (if n < 16 then [''0123456789abcdef'' ! n]
      else hexdigits (n div 16) @ [''0123456789abcdef'' ! (n mod 16)])"

declare hexdigits.simps [simp del]

text \<open>A number in exactly \<open>k\<close> hexadecimal digits (the number is below \<open>16 ^ k\<close>).\<close>

definition hexpad :: "nat \<Rightarrow> nat \<Rightarrow> string" where
  "hexpad k n = replicate (k - length (hexdigits n)) CHR ''0'' @ hexdigits n"

definition RuneError :: nat where
  "RuneError = 0xFFFD"

definition cont :: "nat \<Rightarrow> bool" where
  "cont b = (0x80 \<le> b \<and> b \<le> 0xBF)"

text \<open>
  \<open>utf8.DecodeRuneInString\<close> on a string that starts with a byte from \<open>0x80\<close> on: the
  rune and its width, or \<open>(RuneError, 1)\<close> where the bytes are no valid encoding.
\<close>

definition decodeRune :: "string \<Rightarrow> nat \<times> nat" where
  "decodeRune s =
     (case map of_char s of
        b0 # b1 # b2 # b3 # rest \<Rightarrow>
          if 0xC2 \<le> b0 \<and> b0 \<le> 0xDF \<and> cont b1 then ((b0 mod 32) * 64 + b1 mod 64, 2)
          else if 0xE0 \<le> b0 \<and> b0 \<le> 0xEF \<and> cont b1 \<and> cont b2
                  \<and> (b0 = 0xE0 \<longrightarrow> 0xA0 \<le> b1) \<and> (b0 = 0xED \<longrightarrow> b1 \<le> 0x9F)
            then ((b0 mod 16) * 4096 + (b1 mod 64) * 64 + b2 mod 64, 3)
          else if 0xF0 \<le> b0 \<and> b0 \<le> 0xF4 \<and> cont b1 \<and> cont b2 \<and> cont b3
                  \<and> (b0 = 0xF0 \<longrightarrow> 0x90 \<le> b1) \<and> (b0 = 0xF4 \<longrightarrow> b1 \<le> 0x8F)
            then ((b0 mod 8) * 262144 + (b1 mod 64) * 4096 + (b2 mod 64) * 64 + b3 mod 64, 4)
          else (RuneError, 1)
      | [b0, b1, b2] \<Rightarrow>
          if 0xC2 \<le> b0 \<and> b0 \<le> 0xDF \<and> cont b1 then ((b0 mod 32) * 64 + b1 mod 64, 2)
          else if 0xE0 \<le> b0 \<and> b0 \<le> 0xEF \<and> cont b1 \<and> cont b2
                  \<and> (b0 = 0xE0 \<longrightarrow> 0xA0 \<le> b1) \<and> (b0 = 0xED \<longrightarrow> b1 \<le> 0x9F)
            then ((b0 mod 16) * 4096 + (b1 mod 64) * 64 + b2 mod 64, 3)
          else (RuneError, 1)
      | [b0, b1] \<Rightarrow>
          if 0xC2 \<le> b0 \<and> b0 \<le> 0xDF \<and> cont b1 then ((b0 mod 32) * 64 + b1 mod 64, 2)
          else (RuneError, 1)
      | _ \<Rightarrow> (RuneError, 1))"

text \<open>\<open>utf8.AppendRune\<close>: the UTF-8 encoding of a rune.\<close>

definition encodeRune :: "nat \<Rightarrow> string" where
  "encodeRune r =
     (if r < 0x80 then [char_of r]
      else if r < 0x800 then [char_of (0xC0 + r div 64), char_of (0x80 + r mod 64)]
      else if 0x10FFFF < r \<or> (0xD800 \<le> r \<and> r \<le> 0xDFFF)
        then [CHR 0xEF, CHR 0xBF, CHR 0xBD]
      else if r < 0x10000
        then [char_of (0xE0 + r div 4096), char_of (0x80 + (r div 64) mod 64),
              char_of (0x80 + r mod 64)]
      else [char_of (0xF0 + r div 262144), char_of (0x80 + (r div 4096) mod 64),
            char_of (0x80 + (r div 64) mod 64), char_of (0x80 + r mod 64)])"

text \<open>\<open>strconv.IsPrint\<close>: decided in the code for Latin-1, by tables beyond.\<close>

definition IsPrint :: "library \<Rightarrow> nat \<Rightarrow> bool" where
  "IsPrint lib r =
     (if r \<le> 0xFF
      then (if 0x20 \<le> r \<and> r < 0x7F then True
            else if 0xA1 \<le> r then r \<noteq> 0xAD
            else False)
      else isPrint lib r)"

definition appendEscapedRune :: "library \<Rightarrow> string \<Rightarrow> nat \<Rightarrow> string" where
  "appendEscapedRune lib buf r =
     (if r = 0x22 \<or> r = 0x5C then buf @ [CHR 0x5C, char_of r]
      else if IsPrint lib r then buf @ encodeRune r
      else if r = 7 then buf @ [CHR 0x5C, CHR ''a'']
      else if r = 8 then buf @ [CHR 0x5C, CHR ''b'']
      else if r = 12 then buf @ [CHR 0x5C, CHR ''f'']
      else if r = 10 then buf @ [CHR 0x5C, CHR ''n'']
      else if r = 13 then buf @ [CHR 0x5C, CHR ''r'']
      else if r = 9 then buf @ [CHR 0x5C, CHR ''t'']
      else if r = 11 then buf @ [CHR 0x5C, CHR ''v'']
      else if r < 0x20 \<or> r = 0x7F then buf @ [CHR 0x5C, CHR ''x''] @ hexpad 2 r
      else if 0x10FFFF < r \<or> (0xD800 \<le> r \<and> r \<le> 0xDFFF)
        then buf @ [CHR 0x5C, CHR ''u''] @ hexpad 4 RuneError
      else if r < 0x10000 then buf @ [CHR 0x5C, CHR ''u''] @ hexpad 4 r
      else buf @ [CHR 0x5C, CHR ''U''] @ hexpad 8 r)"

text \<open>
  The loop of \<open>appendQuotedWith\<close>: \<open>for width := 0; len(s) > 0; s = s[width:]\<close>. The
  width is at least 1, so the rest \<open>s[width:]\<close> of \<open>c # cs\<close> is \<open>cs\<close> without its first
  \<open>width - 1\<close> bytes.
\<close>

fun quoteLoop :: "library \<Rightarrow> string \<Rightarrow> string \<Rightarrow> string" where
  "quoteLoop lib buf [] = buf"
| "quoteLoop lib buf (c # cs) =
     (case (if 0x80 \<le> (of_char c :: nat) then decodeRune (c # cs) else (of_char c, 1)) of
        (r, width) \<Rightarrow>
          if width = 1 \<and> r = RuneError
          then quoteLoop lib (buf @ [CHR 0x5C, CHR ''x''] @ hexpad 2 (of_char c)) cs
          else quoteLoop lib (appendEscapedRune lib buf r) (drop (width - 1) cs))"

definition Quote :: "library \<Rightarrow> string \<Rightarrow> string" where
  "Quote lib s = quoteLoop lib [CHR 0x22] s @ [CHR 0x22]"

subsection \<open>The formatter\<close>

record terminalFormatter =
  options :: TerminalOptions
  colorProfile :: ColorProfile

definition NewTerminal :: "bool \<Rightarrow> terminalFormatter" where
  "NewTerminal color =
     \<lparr>options = DefaultOptions\<lparr>Color := color\<rparr>, colorProfile = DefaultColorProfile\<rparr>"

definition formatStringValue :: "library \<Rightarrow> string \<Rightarrow> string" where
  "formatStringValue lib str =
     Quote lib (if length str > MaxFieldLength then take (MaxFieldLength - 3) str @ ''...'' else str)"

definition formatBoolValue :: "runtime \<Rightarrow> terminalFormatter \<Rightarrow> bool \<Rightarrow> string" where
  "formatBoolValue rt f b =
     (if b then SuccessText rt ''true'' (options f) else MutedText rt ''false'' (options f))"

text \<open>
  \<open>formatFieldValue\<close> with \<open>formatPointerValue\<close> and \<open>formatSpecialValue\<close>, by the kind
  of the value.
\<close>

fun formatFieldValue :: "library \<Rightarrow> runtime \<Rightarrow> terminalFormatter \<Rightarrow> rvalue \<Rightarrow> string" where
  "formatFieldValue lib rt f (RString s) = formatStringValue lib s"
| "formatFieldValue lib rt f (RInt i) = fmt_d i"
| "formatFieldValue lib rt f (RUint n) = digits n"
| "formatFieldValue lib rt f (RFloat x) = FormatFloat_f 2 x"
| "formatFieldValue lib rt f (RBool b) = formatBoolValue rt f b"
| "formatFieldValue lib rt f (RSlice n) = ''['' @ digits n @ '' items]''"
| "formatFieldValue lib rt f (RMap n) = ''{'' @ digits n @ '' keys}''"
| "formatFieldValue lib rt f (RPtr None) = MutedText rt ''nil'' (options f)"
| "formatFieldValue lib rt f (RPtr (Some e)) = formatFieldValue lib rt f e"
| "formatFieldValue lib rt f (RInterface None) = MutedText rt ''nil'' (options f)"
| "formatFieldValue lib rt f (RInterface (Some e)) = formatFieldValue lib rt f e"
| "formatFieldValue lib rt f (RStruct name flds) = ''{'' @ name @ ''}''"
| "formatFieldValue lib rt f RInvalid = MutedText rt ''invalid'' (options f)"
| "formatFieldValue lib rt f (RUintptr n) = ''0x'' @ hexdigits n"
| "formatFieldValue lib rt f (RComplex s) = s"
| "formatFieldValue lib rt f (RChan t) = ''chan<'' @ t @ ''>''"
| "formatFieldValue lib rt f (RFunc t) = ''func<'' @ t @ ''>''"
| "formatFieldValue lib rt f (RUnsafePointer n) = ''unsafe.Pointer(0x'' @ hexdigits n @ '')''"

text \<open>
  \<open>structToTreeItems\<close>: the loop over the fields at index \<open>i\<close> of \<open>n\<close>, appending to
  \<open>items\<close>; a field that is a struct, or a pointer to one that is not \<open>nil\<close>, gets the
  items of its fields as children.
\<close>

fun fieldItems ::
  "library \<Rightarrow> runtime \<Rightarrow> terminalFormatter \<Rightarrow> nat \<Rightarrow> nat \<Rightarrow> (string \<times> bool \<times> rvalue) list
   \<Rightarrow> TreeItem list \<Rightarrow> TreeItem list"
  and fieldChildren :: "library \<Rightarrow> runtime \<Rightarrow> terminalFormatter \<Rightarrow> rvalue \<Rightarrow> TreeItem list" where
  "fieldItems lib rt f n i [] items = items"
| "fieldItems lib rt f n i ((name, exported, fv) # rest) items =
     (if \<not> exported then fieldItems lib rt f n (Suc i) rest items
      else fieldItems lib rt f n (Suc i) rest
             (items @ [TreeItem name (formatFieldValue lib rt f fv) (fieldChildren lib rt f fv)
                         (int i = int n - 1)]))"
| "fieldChildren lib rt f (RStruct tn fs) = fieldItems lib rt f (length fs) 0 fs []"
| "fieldChildren lib rt f (RPtr (Some (RStruct tn fs))) = fieldItems lib rt f (length fs) 0 fs []"
| "fieldChildren lib rt f v = []"

definition structToTreeItems ::
  "library \<Rightarrow> runtime \<Rightarrow> terminalFormatter \<Rightarrow> (string \<times> bool \<times> rvalue) list \<Rightarrow> TreeItem list" where
  "structToTreeItems lib rt f flds = fieldItems lib rt f (length flds) 0 flds []"

text \<open>
  \<open>formatStruct\<close> appends to the builder \<open>output\<close> and returns it, or the error
  \<open>expected struct\<close>.
\<close>

datatype format_error = ExpectedStruct | FailedToFormat string

definition formatStructOf ::
  "library \<Rightarrow> runtime \<Rightarrow> terminalFormatter \<Rightarrow> string \<Rightarrow> rvalue
   \<Rightarrow> panic + (format_error + string)" where
  "formatStructOf lib rt f output v =
     (case v of
        RStruct tn flds \<Rightarrow>
          let structName = (if tn = [] then ''Data'' else tn);
              header = Header rt structName (options f)
          in bind (Repeat g_h (int (length structName))) (\<lambda>underline.
             Inr (Inr (output @ header @ [nl] @ underline @ [nl, nl]
                       @ TreeViewWithOptions (structToTreeItems lib rt f flds) (options f))))
      | _ \<Rightarrow> Inr (Inl ExpectedStruct))"

definition formatStruct ::
  "library \<Rightarrow> runtime \<Rightarrow> terminalFormatter \<Rightarrow> string \<Rightarrow> rvalue
   \<Rightarrow> panic + (format_error + string)" where
  "formatStruct lib rt f output data =
     (case data of
        RPtr None \<Rightarrow> Inr (Inr (output @ ''nil''))
      | RPtr (Some v) \<Rightarrow> formatStructOf lib rt f output v
      | _ \<Rightarrow> formatStructOf lib rt f output data)"

text \<open>\<open>formatMap\<close>: one entry after the other, in the order of the \<open>range\<close> loop.\<close>

fun formatMap ::
  "library \<Rightarrow> runtime \<Rightarrow> terminalFormatter \<Rightarrow> string \<Rightarrow> (string \<times> iface) list \<Rightarrow> string
   \<Rightarrow> string" where
  "formatMap lib rt f output [] pfx = output"
| "formatMap lib rt f output ((key, v) # rest) pfx =
     (let keyStr = ColorizeWithProfile rt key ''accent'' (colorProfile f) (options f);
          out1 = output @ pfx @ keyStr @ '': '';
          out2 =
            (case v of
               IMap m \<Rightarrow> formatMap lib rt f (out1 @ [nl]) m (pfx @ ''  '')
             | ISlice xs \<Rightarrow> out1 @ ''['' @ digits (length xs) @ '' items]'' @ [nl]
             | IString s \<Rightarrow>
                 out1 @ Quote lib (if length s > MaxFieldLength
                                   then take (MaxFieldLength - 3) s @ ''...'' else s) @ [nl]
             | INil \<Rightarrow> out1 @ MutedText rt ''nil'' (options f) @ [nl]
             | IOther x \<Rightarrow> out1 @ sprint_v lib v @ [nl])
      in formatMap lib rt f out2 rest pfx)"

fun formatItems ::
  "library \<Rightarrow> runtime \<Rightarrow> terminalFormatter \<Rightarrow> string \<Rightarrow> nat \<Rightarrow> iface list \<Rightarrow> string" where
  "formatItems lib rt f output i [] = output"
| "formatItems lib rt f output i (item # rest) =
     (let out1 = output @ ''['' @ digits i @ ''] '';
          out2 =
            (case item of
               IMap m \<Rightarrow> formatMap lib rt f (out1 @ ''{'' @ [nl]) m ''  '' @ ''}'' @ [nl]
             | IString s \<Rightarrow> out1 @ Quote lib s @ [nl]
             | INil \<Rightarrow> out1 @ MutedText rt ''nil'' (options f) @ [nl]
             | _ \<Rightarrow> out1 @ sprint_v lib item @ [nl])
      in formatItems lib rt f out2 (Suc i) rest)"

definition formatSlice ::
  "library \<Rightarrow> runtime \<Rightarrow> terminalFormatter \<Rightarrow> string \<Rightarrow> iface list \<Rightarrow> string" where
  "formatSlice lib rt f output xs =
     formatItems lib rt f
       (output @ Header rt ''Array Data'' (options f) @ [nl]
        @ concat (replicate 10 g_h) @ [nl, nl]) 0 xs"

text \<open>
  \<open>Format\<close> returns the bytes and a \<open>nil\<close> error (\<open>Inr (Inr bytes)\<close>), or no bytes and an
  error (\<open>Inr (Inl error)\<close>).
\<close>

definition Format ::
  "library \<Rightarrow> runtime \<Rightarrow> terminalFormatter \<Rightarrow> iface \<Rightarrow> panic + (format_error + string)" where
  "Format lib rt f data =
     (case data of
        INil \<Rightarrow> Inr (Inr [])
      | IMap m \<Rightarrow> Inr (Inr (formatMap lib rt f [] m []))
      | ISlice xs \<Rightarrow> Inr (Inr (formatSlice lib rt f [] xs))
      | IString s \<Rightarrow> Inr (Inr s)
      | IOther v \<Rightarrow>
          bind (formatStruct lib rt f [] v) (\<lambda>r.
            case r of
              Inr out \<Rightarrow> Inr (Inr out)
            | Inl err \<Rightarrow>
                (case marshalIndent lib v of
                   Inl jsonErr \<Rightarrow> Inr (Inl (FailedToFormat jsonErr))
                 | Inr jsonData \<Rightarrow> Inr (Inr jsonData))))"

text \<open>
  The string rendering as the specification words it: the text between quotes, cut to 47
  characters and three dots when it is longer than 50.
\<close>

definition claimed_formatStringValue :: "string \<Rightarrow> string" where
  "claimed_formatStringValue str =
     [CHR 0x22] @ (if length str > 50 then take 47 str @ ''...'' else str) @ [CHR 0x22]"

text \<open>A byte that \<open>%q\<close> writes as it is: printable ASCII other than the quote and the backslash.\<close>

definition plain_byte :: "char \<Rightarrow> bool" where
  "plain_byte c =
     (0x20 \<le> (of_char c :: nat) \<and> (of_char c :: nat) < 0x7F \<and> c \<noteq> CHR 0x22 \<and> c \<noteq> CHR 0x5C)"

section \<open>Verification\<close>

subsection \<open>Basic facts\<close>

lemmas glyph_defs =
  g_h_def g_v_def g_tl_def g_tr_def g_bl_def g_br_def g_tee_l_def g_tee_r_def g_cross_def
  g_dh_def g_dv_def g_dtl_def g_dtr_def g_dbl_def g_dbr_def g_dtee_l_def g_dtee_r_def
  g_full_def g_light_def

lemma bind_Inr [simp]: "bind (Inr x) f = f x"
  by (simp add: bind_def)

lemma bind_Inl [simp]: "bind (Inl e) f = Inl e"
  by (simp add: bind_def)

lemma Repeat_ok:
  "0 \<le> n \<Longrightarrow> int (length s) * n \<le> maxInt \<Longrightarrow> Repeat s n = Inr (concat (replicate (nat n) s))"
  by (auto simp: Repeat_def)

lemma floor_rat_numeral [simp]:
  "\<lfloor>(numeral a :: rat) / numeral b\<rfloor> = numeral a div numeral b"
  using floor_divide_of_int_eq [of "numeral a" "numeral b", where ?'a = rat] by simp

lemma floor_rat_neg_numeral [simp]:
  "\<lfloor>- ((numeral a :: rat) / numeral b)\<rfloor> = - numeral a div numeral b"
  using floor_divide_of_int_eq [of "- numeral a" "numeral b", where ?'a = rat] by simp

lemma ceiling_rat_numeral [simp]:
  "\<lceil>(numeral a :: rat) / numeral b\<rceil> = - (- numeral a div numeral b)"
  by (simp add: ceiling_def)

lemma ceiling_rat_neg_numeral [simp]:
  "\<lceil>- ((numeral a :: rat) / numeral b)\<rceil> = - (numeral a div numeral b)"
  by (simp add: ceiling_def)

lemma bitlen_eval [simp]:
  "bitlen 0 = 0"
  "bitlen 1 = 1"
  "bitlen (numeral (Num.Bit0 k)) = 1 + bitlen (numeral k)"
  "bitlen (numeral (Num.Bit1 k)) = 1 + bitlen (numeral k)"
  "bitlen (- numeral k) = 0"
proof -
  show "bitlen 0 = 0" "bitlen 1 = 1" "bitlen (- numeral k) = 0"
    by (simp_all add: bitlen.simps)
  have "numeral (Num.Bit0 k) div 2 = (numeral k :: int)"
    "numeral (Num.Bit1 k) div 2 = (numeral k :: int)"
    by simp_all
  then show "bitlen (numeral (Num.Bit0 k)) = 1 + bitlen (numeral k)"
    "bitlen (numeral (Num.Bit1 k)) = 1 + bitlen (numeral k)"
    by (subst bitlen.simps; simp)+
qed

lemmas f64_eval =
  f64_of_int_def f64_round_def ilog2_def pow2_def round_half_even_def Let_def
  f64_mul_def f64_div_def f64_gt_def f64_to_int_def trunc_def
  f64_is_inf_def f64_is_zero_def f64_zero_def f64_inf_def

lemma f64_of_int_eval:
  "f64_of_int 0 = Finite 0"
  "f64_of_int 1 = Finite 1"
  "f64_of_int 2 = Finite 2"
  "f64_of_int 4 = Finite 4"
  "f64_of_int 10 = Finite 10"
  "f64_of_int 100 = Finite 100"
  "f64_of_int (- 50) = Finite (- 50)"
  "f64_of_int (- 10) = Finite (- 10)"
  "f64_of_int (- 6) = Finite (- 6)"
  "f64_of_int (- 1) = Finite (- 1)"
  "f64_of_int 40 = Finite 40"
  by (simp_all add: f64_eval)

lemma Split_nl_nonempty [simp]: "Split_nl s \<noteq> []"
  by (induction s) (auto split: list.splits)

lemma Split_nl_length: "l \<in> set (Split_nl s) \<Longrightarrow> length l \<le> length s"
proof (induction s arbitrary: l)
  case Nil
  then show ?case by simp
next
  case (Cons c cs)
  obtain x xs where sp: "Split_nl cs = x # xs"
    by (cases "Split_nl cs") simp_all
  have "length x \<le> length cs" and "\<forall>y \<in> set xs. length y \<le> length cs"
    using Cons.IH sp by simp_all
  with Cons.prems sp show ?case
    by (auto split: if_splits simp: le_SucI)
qed

lemma glyph_count_append [simp]: "glyph_count (xs @ ys) = glyph_count xs + glyph_count ys"
  by (simp add: glyph_count_def)

lemma glyph_count_rule [simp]: "glyph_count (concat (replicate n g_h)) = n"
  by (induction n) (simp_all add: glyph_count_def g_h_def is_continuation_def)

lemma glyph_count_corner [simp]:
  "glyph_count g_h = 1" "glyph_count g_tl = 1" "glyph_count g_tr = 1"
  "glyph_count g_bl = 1" "glyph_count g_br = 1"
  by (simp_all add: glyph_count_def g_h_def g_tl_def g_tr_def g_bl_def g_br_def
      is_continuation_def)

subsection \<open>Box\<close>

lemma maxLineLen_ge: "m \<le> maxLineLen m ls"
proof (induction ls arbitrary: m)
  case Nil
  show ?case by simp
next
  case (Cons l ls)
  show ?case
    using Cons.IH [of "int (length l)"] Cons.IH [of m] by (simp split: if_splits)
qed

lemma maxLineLen_ge_line: "l \<in> set ls \<Longrightarrow> int (length l) \<le> maxLineLen m ls"
proof (induction ls arbitrary: m)
  case Nil
  then show ?case by simp
next
  case (Cons x xs)
  show ?case
  proof (cases "l = x")
    case True
    then show ?thesis
      using maxLineLen_ge [of "int (length x)" xs] maxLineLen_ge [of m xs]
      by (simp split: if_splits)
  next
    case False
    with Cons show ?thesis by simp
  qed
qed

lemma maxLineLen_in: "maxLineLen m ls \<in> insert m ((\<lambda>l. int (length l)) ` set ls)"
  by (induction ls arbitrary: m) (auto split: if_splits)

lemma maxLineLen_Max:
  "maxLineLen m ls = Max (insert m ((\<lambda>l. int (length l)) ` set ls))"
proof (rule Max_eqI [symmetric])
  show "finite (insert m ((\<lambda>l. int (length l)) ` set ls))" by simp
  show "maxLineLen m ls \<in> insert m ((\<lambda>l. int (length l)) ` set ls)"
    by (rule maxLineLen_in)
  fix y assume "y \<in> insert m ((\<lambda>l. int (length l)) ` set ls)"
  then show "y \<le> maxLineLen m ls"
    by (auto simp: maxLineLen_ge maxLineLen_ge_line)
qed

lemma maxLineLen_longest:
  "maxLineLen 0 ls = int (Max (insert 0 (length ` set ls)))"
proof -
  have "int (Max (insert 0 (length ` set ls))) = Max (int ` (insert 0 (length ` set ls)))"
    by (rule mono_Max_commute) (auto simp: mono_def)
  then show ?thesis by (simp add: maxLineLen_Max image_image)
qed

lemma maxLineLen_longestLine: "maxLineLen 0 (Split_nl content) = int (longestLine content)"
proof -
  have "Max (insert 0 (length ` set (Split_nl content))) = Max (length ` set (Split_nl content))"
    by (subst Max_insert) simp_all
  then show ?thesis by (simp add: maxLineLen_longest longestLine_def)
qed

lemma longestLine_le: "longestLine content \<le> length content"
  unfolding longestLine_def by (rule Max.boundedI) (auto simp: Split_nl_length)

lemma boxLines_ok:
  "\<forall>line \<in> set lines. int (length line) \<le> m \<Longrightarrow> m \<le> maxInt \<Longrightarrow>
   boxLines b l r m lines =
     Inr (b @ concat (map (\<lambda>line. l @ line @ replicate (nat m - length line) CHR '' '' @ r) lines))"
proof (induction lines arbitrary: b)
  case Nil
  show ?case by simp
next
  case (Cons line lines)
  have "Repeat '' '' (m - int (length line)) = Inr (replicate (nat m - length line) CHR '' '')"
    using Cons.prems by (simp add: Repeat_ok nat_diff_distrib')
  then show ?case using Cons by simp
qed

lemma glyph_count_border:
  "glyph_count (spec_border g_tl g_tr w) = w + 2 + 2"
  "glyph_count (spec_border g_bl g_br w) = w + 2 + 2"
  by (simp_all only: spec_border_def glyph_count_append glyph_count_rule glyph_count_corner)

lemma simpleBox_spec:
  assumes "length content < 2 ^ 61"
  shows "simpleBox content = Inr (spec_simpleBox content)"
proof -
  let ?w = "longestLine content"
  have w: "int ?w < 2 ^ 61"
    using longestLine_le [of content] assms by simp
  have rule: "Repeat g_h (int ?w + borderPadding) = Inr (concat (replicate (?w + 2) g_h))"
    using w by (simp add: Repeat_ok borderPadding_def g_h_def maxInt_def nat_add_distrib)
  have lines: "\<forall>line \<in> set (Split_nl content). int (length line) \<le> int ?w"
    by (simp add: longestLine_def)
  have body: "boxLines b (g_v @ '' '') ('' '' @ g_v @ [nl]) (int ?w) (Split_nl content)
      = Inr (b @ concat (map (\<lambda>line. spec_row ?w line @ [nl]) (Split_nl content)))" for b
    using w by (simp add: boxLines_ok [OF lines] maxInt_def spec_row_def)
  show ?thesis
    unfolding simpleBox_def Let_def maxLineLen_longestLine rule body bind_Inr
    by (simp add: spec_simpleBox_def spec_border_def Let_def)
qed

text \<open>
  C6. For every non-empty content (of a size that fits in memory), \<open>Box("", content)\<close>
  returns the single-line-weight box: a top and a bottom row of exactly (length of the
  longest content line) + 2 + 2 glyphs, and between them one row per content line, the
  line padded with spaces to the length of the longest line between the border glyphs.
\<close>

theorem Box_untitled_layout:
  assumes "content \<noteq> []" and "length content < 2 ^ 61"
  shows "Box [] content = Inr (spec_simpleBox content)
    \<and> glyph_count (spec_border g_tl g_tr (longestLine content)) = longestLine content + 2 + 2
    \<and> glyph_count (spec_border g_bl g_br (longestLine content)) = longestLine content + 2 + 2
    \<and> (\<forall>line \<in> set (Split_nl content).
          length (line @ replicate (longestLine content - length line) CHR '' '')
            = longestLine content)"
proof -
  have "\<forall>line \<in> set (Split_nl content). length line \<le> longestLine content"
    by (simp add: longestLine_def)
  then show ?thesis
    using assms by (simp add: Box_def BoxWithOptions_def simpleBox_spec glyph_count_border)
qed

theorem Box_untitled_layout_witness:
  "Box [] (''ab'' @ [nl] @ ''c'') =
     Inr (g_tl @ g_h @ g_h @ g_h @ g_h @ g_tr @ [nl]
          @ g_v @ '' ab '' @ g_v @ [nl]
          @ g_v @ '' c  '' @ g_v @ [nl]
          @ g_bl @ g_h @ g_h @ g_h @ g_h @ g_br)
   \<and> longestLine (''ab'' @ [nl] @ ''c'') = 2"
proof -
  have sp: "Split_nl (''ab'' @ [nl] @ ''c'') = [''ab'', ''c'']"
    by (simp add: nl_def)
  have w: "longestLine (''ab'' @ [nl] @ ''c'') = 2"
    unfolding longestLine_def sp by simp
  have small: "length (''ab'' @ [nl] @ ''c'') < 2 ^ 61"
    by simp
  have "Box [] (''ab'' @ [nl] @ ''c'') = Inr (spec_simpleBox (''ab'' @ [nl] @ ''c''))"
    using Box_untitled_layout [OF _ small] by simp
  then show ?thesis
    unfolding spec_simpleBox_def Let_def sp w
    by (simp add: spec_border_def spec_row_def numeral_2_eq_2)
qed

subsection \<open>Table\<close>

lemma assign_ok [simp]: "i < length xs \<Longrightarrow> assign xs i v = Inr (xs[i := v])"
  by (simp add: assign_def)

lemma index_ok [simp]: "i < length xs \<Longrightarrow> index xs i = Inr (xs ! i)"
  by (simp add: index_def)

lemma initWidths_nth:
  "i + length hs \<le> length cw \<Longrightarrow>
   \<exists>cw'. initWidths cw i hs = Inr cw' \<and> length cw' = length cw \<and>
     (\<forall>j < length cw. cw' ! j =
        (if i \<le> j \<and> j < i + length hs then int (length (hs ! (j - i))) else cw ! j))"
proof (induction hs arbitrary: cw i)
  case Nil
  then show ?case by simp
next
  case (Cons h hs)
  let ?cw1 = "cw[i := int (length h)]"
  from Cons.prems have i: "i < length cw" and "Suc i + length hs \<le> length ?cw1"
    by simp_all
  from Cons.IH [OF this(2)] obtain cw' where
    r: "initWidths ?cw1 (Suc i) hs = Inr cw'" and l: "length cw' = length ?cw1" and
    n: "\<forall>j < length ?cw1. cw' ! j =
        (if Suc i \<le> j \<and> j < Suc i + length hs then int (length (hs ! (j - Suc i))) else ?cw1 ! j)"
    by blast
  have "\<forall>j < length cw. cw' ! j =
        (if i \<le> j \<and> j < i + length (h # hs) then int (length ((h # hs) ! (j - i))) else cw ! j)"
    using n i by (auto simp: nth_Cons' nth_list_update)
  with r l i show ?case by simp
qed

lemma widenRow_nth:
  "\<exists>cw'. widenRow cw i cells = Inr cw' \<and> length cw' = length cw \<and>
     (\<forall>j < length cw. cw' ! j =
        (if i \<le> j \<and> j < i + length cells then max (cw ! j) (int (length (cells ! (j - i))))
         else cw ! j))"
proof (induction cells arbitrary: cw i)
  case Nil
  then show ?case by simp
next
  case (Cons c cs)
  define cw1 where "cw1 = (if i < length cw \<and> int (length c) > cw ! i then cw[i := int (length c)] else cw)"
  have step: "widenRow cw i (c # cs) = widenRow cw1 (Suc i) cs"
    by (simp add: cw1_def)
  have l1: "length cw1 = length cw" by (simp add: cw1_def)
  have n1: "\<forall>j < length cw. cw1 ! j = (if j = i then max (cw ! j) (int (length c)) else cw ! j)"
    by (auto simp: cw1_def nth_list_update)
  from Cons.IH [of cw1 "Suc i"] obtain cw' where
    r: "widenRow cw1 (Suc i) cs = Inr cw'" and l: "length cw' = length cw1" and
    n: "\<forall>j < length cw1. cw' ! j =
        (if Suc i \<le> j \<and> j < Suc i + length cs then max (cw1 ! j) (int (length (cs ! (j - Suc i))))
         else cw1 ! j)"
    by blast
  have "\<forall>j < length cw. cw' ! j =
        (if i \<le> j \<and> j < i + length (c # cs) then max (cw ! j) (int (length ((c # cs) ! (j - i))))
         else cw ! j)"
    using n n1 l1 by (auto simp: nth_Cons')
  with r l l1 step show ?case by simp
qed

lemma colCells_Cons:
  "colCells (row # rows) j =
     (if j < length row then insert (int (length (row ! j))) (colCells rows j) else colCells rows j)"
  by (simp add: colCells_def)

lemma finite_colCells [simp]: "finite (colCells rows j)"
  by (simp add: colCells_def)

lemma widenRows_nth:
  "\<exists>cw'. widenRows cw rows = Inr cw' \<and> length cw' = length cw \<and>
     (\<forall>j < length cw. cw' ! j = Max (insert (cw ! j) (colCells rows j)))"
proof (induction rows arbitrary: cw)
  case Nil
  then show ?case by (simp add: colCells_def)
next
  case (Cons row rows)
  from widenRow_nth [of cw 0 row] obtain cw1 where
    r1: "widenRow cw 0 row = Inr cw1" and l1: "length cw1 = length cw" and
    n1: "\<forall>j < length cw. cw1 ! j = (if j < length row then max (cw ! j) (int (length (row ! j))) else cw ! j)"
    by auto
  from Cons.IH [of cw1] obtain cw' where
    r: "widenRows cw1 rows = Inr cw'" and l: "length cw' = length cw1" and
    n: "\<forall>j < length cw1. cw' ! j = Max (insert (cw1 ! j) (colCells rows j))"
    by blast
  have "cw' ! j = Max (insert (cw ! j) (colCells (row # rows) j))" if j: "j < length cw" for j
  proof (cases "j < length row")
    case True
    have "Max (insert (max (cw ! j) (int (length (row ! j)))) (colCells rows j))
        = Max (insert (cw ! j) (insert (int (length (row ! j))) (colCells rows j)))"
      by (cases "colCells rows j = {}") (simp_all add: max.assoc)
    with True n n1 l1 j show ?thesis by (simp add: colCells_Cons)
  next
    case False
    with n n1 l1 j show ?thesis by (simp add: colCells_Cons)
  qed
  with r1 r l l1 show ?case by simp
qed

lemma tableColWidths_spec:
  "tableColWidths headers rows = Inr (map (spec_colWidth headers rows) [0..<length headers])"
proof -
  from initWidths_nth [of 0 headers "replicate (length headers) 0"] obtain cw0 where
    r0: "initWidths (replicate (length headers) 0) 0 headers = Inr cw0" and
    l0: "length cw0 = length headers" and
    n0: "\<forall>j < length headers. cw0 ! j = int (length (headers ! j))"
    by auto
  from widenRows_nth [of cw0 rows] obtain cw where
    r: "widenRows cw0 rows = Inr cw" and l: "length cw = length cw0" and
    n: "\<forall>j < length cw0. cw ! j = Max (insert (cw0 ! j) (colCells rows j))"
    by blast
  have "cw = map (spec_colWidth headers rows) [0..<length headers]"
    using l l0 n n0 by (intro nth_equalityI) (simp_all add: spec_colWidth_def)
  with r0 r show ?thesis by (simp add: tableColWidths_def)
qed

lemma Repeat_pad:
  "int (length s) \<le> w \<Longrightarrow> w \<le> maxInt \<Longrightarrow>
   Repeat '' '' (w - int (length s)) = Inr (replicate (nat w - length s) CHR '' '')"
  by (simp add: Repeat_ok nat_diff_distrib')

lemma dataCells_spec:
  "\<forall>(w, s) \<in> set (zip (drop i cw) cells). int (length s) \<le> w \<and> w \<le> maxInt \<Longrightarrow>
   dataCells b cw i cells = Inr (b @ spec_cells (drop i cw) cells)"
proof (induction cells arbitrary: b i)
  case Nil
  show ?case by (simp add: spec_cells_def)
next
  case (Cons c cs)
  show ?case
  proof (cases "i < length cw")
    case True
    then have d: "drop i cw = cw ! i # drop (Suc i) cw"
      by (simp add: Cons_nth_drop_Suc)
    from Cons.prems d have c: "int (length c) \<le> cw ! i" "cw ! i \<le> maxInt" and
      rest: "\<forall>(w, s) \<in> set (zip (drop (Suc i) cw) cs). int (length s) \<le> w \<and> w \<le> maxInt"
      by simp_all
    show ?thesis
      using True Cons.IH [OF rest] Repeat_pad [OF c]
      by (simp add: d spec_cells_def spec_cell_def)
  next
    case False
    then have d: "drop i cw = []" "drop (Suc i) cw = []" by simp_all
    have "dataCells b cw (Suc i) cs = Inr (b @ spec_cells (drop (Suc i) cw) cs)"
      by (rule Cons.IH) (simp add: d)
    with False show ?thesis by (simp add: d spec_cells_def)
  qed
qed

lemma headerCells_spec:
  "i + length hs \<le> length cw \<Longrightarrow>
   \<forall>(w, s) \<in> set (zip (drop i cw) hs). int (length s) \<le> w \<and> w \<le> maxInt \<Longrightarrow>
   headerCells b cw i hs = Inr (b @ spec_cells (drop i cw) hs)"
proof (induction hs arbitrary: b i)
  case Nil
  show ?case by (simp add: spec_cells_def)
next
  case (Cons h hs)
  from Cons.prems(1) have i: "i < length cw" and i': "Suc i + length hs \<le> length cw"
    by simp_all
  then have d: "drop i cw = cw ! i # drop (Suc i) cw"
    by (simp add: Cons_nth_drop_Suc)
  from Cons.prems(2) d have c: "int (length h) \<le> cw ! i" "cw ! i \<le> maxInt" and
    rest: "\<forall>(w, s) \<in> set (zip (drop (Suc i) cw) hs). int (length s) \<le> w \<and> w \<le> maxInt"
    by simp_all
  show ?case
    using i Cons.IH [OF i' rest] Repeat_pad [OF c]
    by (simp add: d spec_cells_def spec_cell_def)
qed

lemma Repeat_rule:
  "0 \<le> w \<Longrightarrow> w < 2 ^ 61 \<Longrightarrow>
   Repeat g_h (w + tableRowPadding) = Inr (concat (replicate (nat (w + 2)) g_h))"
  by (simp add: Repeat_ok tableRowPadding_def g_h_def maxInt_def)

lemma sepCells_spec:
  "n = int i + int (length ws) \<Longrightarrow> \<forall>w \<in> set ws. 0 \<le> w \<and> w < 2 ^ 61 \<Longrightarrow>
   sepCells b n i ws = Inr (b @ spec_sep ws)"
proof (induction ws arbitrary: b i rule: spec_sep.induct)
  case 1
  show ?case by simp
next
  case (2 w)
  then show ?case by (simp add: Repeat_rule)
next
  case (3 w w' ws)
  from "3.prems" have n: "n = int (Suc i) + int (length (w' # ws))" and
    r: "\<forall>w \<in> set (w' # ws). 0 \<le> w \<and> w < 2 ^ 61" and w: "0 \<le> w" "w < 2 ^ 61" and
    lt: "int i < n - 1"
    by simp_all
  have step: "sepCells b n i (w # w' # ws)
      = sepCells (b @ concat (replicate (nat (w + 2)) g_h) @ g_cross) n (Suc i) (w' # ws)"
    by (subst sepCells.simps(2)) (simp add: Repeat_rule [OF w] lt del: sepCells.simps)
  show ?case
    by (simp only: step "3.IH" [OF n r] spec_sep.simps) simp
qed

lemma dataRows_spec:
  "\<forall>row \<in> set rows. \<forall>(w, s) \<in> set (zip cw row). int (length s) \<le> w \<and> w \<le> maxInt \<Longrightarrow>
   dataRows b cw rows = Inr (b @ concat (map (\<lambda>row. g_v @ spec_cells cw row @ [nl]) rows))"
proof (induction rows arbitrary: b)
  case Nil
  show ?case by simp
next
  case (Cons row rows)
  have "dataCells (b @ g_v) cw 0 row = Inr ((b @ g_v) @ spec_cells (drop 0 cw) row)"
    by (rule dataCells_spec) (use Cons.prems in simp)
  then show ?case using Cons by simp
qed

lemma spec_colWidth_ge_header: "int (length (headers ! k)) \<le> spec_colWidth headers rows k"
  by (simp add: spec_colWidth_def)

lemma spec_colWidth_ge_cell:
  "row \<in> set rows \<Longrightarrow> k < length row \<Longrightarrow>
   int (length (row ! k)) \<le> spec_colWidth headers rows k"
  unfolding spec_colWidth_def by (rule Max_ge) (auto simp: colCells_def)

lemma spec_colWidth_small:
  assumes "fits headers rows" and "k < length headers"
  shows "spec_colWidth headers rows k < 2 ^ 61"
proof -
  have "\<forall>a \<in> insert (int (length (headers ! k))) (colCells rows k). a < 2 ^ 61"
    using assms by (auto simp: fits_def colCells_def)
  then show ?thesis
    unfolding spec_colWidth_def by (subst Max_less_iff) simp_all
qed

lemma spec_colWidth_nonneg: "0 \<le> spec_colWidth headers rows k"
  using spec_colWidth_ge_header [of headers k rows] by linarith

lemma zip_take_right: "length ws \<le> n \<Longrightarrow> zip ws (take n cells) = zip ws cells"
proof (induction ws arbitrary: n cells)
  case Nil
  show ?case by simp
next
  case (Cons w ws)
  then show ?case by (cases cells; cases n) simp_all
qed

lemma colCells_take: "k < n \<Longrightarrow> colCells (map (take n) rows) k = colCells rows k"
proof (induction rows)
  case Nil
  show ?case by (simp add: colCells_def)
next
  case (Cons row rows)
  then show ?case by (simp add: colCells_Cons)
qed

lemma spec_table_take:
  "spec_table headers (map (take (length headers)) rows) = spec_table headers rows"
proof -
  have eq: "map (spec_colWidth headers (map (take (length headers)) rows)) [0..<length headers]
      = map (spec_colWidth headers rows) [0..<length headers]"
    by (simp add: spec_colWidth_def colCells_take)
  have "spec_cells (map (spec_colWidth headers rows) [0..<length headers]) (take (length headers) row)
      = spec_cells (map (spec_colWidth headers rows) [0..<length headers]) row" for row
    by (simp add: spec_cells_def zip_take_right)
  then show ?thesis
    unfolding spec_table_def Let_def eq by (simp add: comp_def)
qed

lemma fits_take: "fits headers rows \<Longrightarrow> fits headers (map (take n) rows)"
  by (auto simp: fits_def dest: in_set_takeD)

lemma TableWithOptions_spec:
  assumes "fits headers rows"
  shows "TableWithOptions headers rows opts =
     Inr (if headers = [] then [] else TrimRight_nl (spec_table headers rows))"
proof (cases "headers = []")
  case True
  then show ?thesis by (simp add: TableWithOptions_def)
next
  case False
  define ws where "ws = map (spec_colWidth headers rows) [0..<length headers]"
  have len: "length ws = length headers" by (simp add: ws_def)
  have sm: "spec_colWidth headers rows k < 2 ^ 61" if "k < length headers" for k
    using assms that by (rule spec_colWidth_small)
  have small: "\<forall>w \<in> set ws. 0 \<le> w \<and> w < 2 ^ 61"
    using sm by (auto simp: ws_def spec_colWidth_nonneg)
  then have mx: "\<forall>w \<in> set ws. w \<le> maxInt"
    by (auto simp: maxInt_def)
  have hdr: "\<forall>(w, s) \<in> set (zip (drop 0 ws) headers). int (length s) \<le> w \<and> w \<le> maxInt"
  proof -
    have "int (length s) \<le> w \<and> w \<le> maxInt" if "(w, s) \<in> set (zip ws headers)" for w s
    proof -
      from that obtain k where "ws ! k = w" "headers ! k = s" "k < length ws"
        by (auto simp: in_set_zip)
      with mx len show ?thesis
        using spec_colWidth_ge_header [of headers k rows] by (auto simp: ws_def)
    qed
    then show ?thesis by auto
  qed
  have cells: "\<forall>row \<in> set rows. \<forall>(w, s) \<in> set (zip ws row). int (length s) \<le> w \<and> w \<le> maxInt"
  proof -
    have "int (length s) \<le> w \<and> w \<le> maxInt"
      if "row \<in> set rows" "(w, s) \<in> set (zip ws row)" for row w s
    proof -
      from that(2) obtain k where "ws ! k = w" "row ! k = s" "k < length ws" "k < length row"
        by (auto simp: in_set_zip)
      with mx len that(1) show ?thesis
        using spec_colWidth_ge_cell [of row rows k headers] by (auto simp: ws_def)
    qed
    then show ?thesis by auto
  qed
  have h: "headerCells g_v ws 0 headers = Inr (g_v @ spec_cells ws headers)"
    using headerCells_spec [OF _ hdr, of g_v] len by simp
  have s: "sepCells b (int (length ws)) 0 ws = Inr (b @ spec_sep ws)" for b
    by (rule sepCells_spec [OF _ small]) simp
  have d: "dataRows b ws rows
      = Inr (b @ concat (map (\<lambda>row. g_v @ spec_cells ws row @ [nl]) rows))" for b
    by (rule dataRows_spec [OF cells])
  have "TableWithOptions headers rows opts =
      Inr (TrimRight_nl (((((g_v @ spec_cells ws headers) @ [nl] @ g_tee_l) @ spec_sep ws)
             @ g_tee_r @ [nl])
           @ concat (map (\<lambda>row. g_v @ spec_cells ws row @ [nl]) rows)))"
    using False
    unfolding TableWithOptions_def tableColWidths_spec ws_def [symmetric] bind_Inr h s d
    by simp
  with False show ?thesis
    by (simp add: spec_table_def ws_def Let_def)
qed

text \<open>
  C5. For every headers sequence and rows, the column widths that \<open>TableWithOptions\<close>
  computes are, column by column, the maximum of the header's length and the lengths of
  the cells at that index; no index is read out of range, also for rows with fewer cells
  than headers; with strings of a size that fits in memory the call returns the table
  laid out with these widths, cells matched to columns by index, and cells beyond the
  header count change nothing: dropping them gives the same output.
\<close>

theorem Table_column_widths:
  "tableColWidths headers rows = Inr (map (spec_colWidth headers rows) [0..<length headers])
   \<and> (fits headers rows \<longrightarrow>
        TableWithOptions headers rows opts
          = Inr (if headers = [] then [] else TrimRight_nl (spec_table headers rows))
        \<and> TableWithOptions headers (map (take (length headers)) rows) opts
          = TableWithOptions headers rows opts)"
  by (simp add: tableColWidths_spec TableWithOptions_spec fits_take spec_table_take)

theorem Table_column_widths_witness:
  "fits [''A'', ''BB''] [[''1'', ''22'', ''333''], [''4444'']]
   \<and> tableColWidths [''A'', ''BB''] [[''1'', ''22'', ''333''], [''4444'']] = Inr [4, 2]
   \<and> TableWithOptions [''A'', ''BB''] [[''1'', ''22'', ''333''], [''4444'']] DefaultOptions
     = Inr (g_v @ '' A    '' @ g_v @ '' BB '' @ g_v @ [nl]
            @ g_tee_l @ g_h @ g_h @ g_h @ g_h @ g_h @ g_h @ g_cross @ g_h @ g_h @ g_h @ g_h
            @ g_tee_r @ [nl]
            @ g_v @ '' 1    '' @ g_v @ '' 22 '' @ g_v @ [nl]
            @ g_v @ '' 4444 '' @ g_v)
   \<and> TableWithOptions [''A'', ''BB''] [[''1'', ''22''], [''4444'']] DefaultOptions
     = TableWithOptions [''A'', ''BB''] [[''1'', ''22'', ''333''], [''4444'']] DefaultOptions"
proof -
  let ?H = "[''A'', ''BB'']"
  let ?R = "[[''1'', ''22'', ''333''], [''4444'']]"
  note inst = Table_column_widths [of ?H ?R DefaultOptions]
  have f: "fits ?H ?R"
    by (simp add: fits_def)
  have w: "map (spec_colWidth ?H ?R) [0..<length ?H] = [4, 2]"
    by (simp add: spec_colWidth_def colCells_def upt_rec)
  have cw: "tableColWidths ?H ?R = Inr [4, 2]"
    using inst w by simp
  have "TableWithOptions ?H ?R DefaultOptions = Inr (TrimRight_nl (spec_table ?H ?R))"
    using inst f by simp
  then have out: "TableWithOptions ?H ?R DefaultOptions
     = Inr (g_v @ '' A    '' @ g_v @ '' BB '' @ g_v @ [nl]
            @ g_tee_l @ g_h @ g_h @ g_h @ g_h @ g_h @ g_h @ g_cross @ g_h @ g_h @ g_h @ g_h
            @ g_tee_r @ [nl]
            @ g_v @ '' 1    '' @ g_v @ '' 22 '' @ g_v @ [nl]
            @ g_v @ '' 4444 '' @ g_v)"
    unfolding spec_table_def Let_def w
    by (simp add: spec_cells_def spec_cell_def TrimRight_nl_def nl_def glyph_defs
        eval_nat_numeral)
  have "TableWithOptions ?H (map (take (length ?H)) ?R) DefaultOptions
      = TableWithOptions ?H ?R DefaultOptions"
    using inst f by blast
  then have tk: "TableWithOptions ?H [[''1'', ''22''], [''4444'']] DefaultOptions
      = TableWithOptions ?H ?R DefaultOptions"
    by simp
  from f cw out tk show ?thesis by blast
qed

subsection \<open>Tree view\<close>

lemma renderLoop_spec:
  "n = i + int (length items) \<Longrightarrow> renderLoop b n i items pfx = b @ spec_tree pfx items"
proof (induction pfx items arbitrary: b n i rule: spec_tree.induct)
  case (1 pfx)
  then show ?case by simp
next
  case (2 pfx label val children lst)
  from "2.prems" have last: "i = n - 1" by simp
  show ?case
  proof (cases "children = []")
    case True
    with last show ?thesis by (simp add: Let_def)
  next
    case False
    have "renderLoop b' (int (length children)) 0 children (pfx @ ''   '')
        = b' @ spec_tree (pfx @ ''   '') children" for b'
      by (rule "2.IH") simp
    with False last show ?thesis by (simp add: Let_def)
  qed
next
  case (3 pfx label val children lst nxt rest)
  from "3.prems" have ne: "i \<noteq> n - 1" and nx: "n = (i + 1) + int (length (nxt # rest))"
    by simp_all
  have rest: "renderLoop b' n (i + 1) (nxt # rest) pfx = b' @ spec_tree pfx (nxt # rest)" for b'
    by (rule "3.IH"(2) [OF nx])
  show ?case
  proof (cases "children = []")
    case True
    with ne rest show ?thesis by (simp add: Let_def)
  next
    case False
    have "renderLoop b' (int (length children)) 0 children (pfx @ g_v @ ''  '')
        = b' @ spec_tree (pfx @ g_v @ ''  '') children" for b'
      by (rule "3.IH"(1)) simp
    with False ne rest show ?thesis by (simp add: Let_def)
  qed
qed

lemma spec_tree_eraseLast: "spec_tree pfx (map eraseLast items) = spec_tree pfx items"
  by (induction pfx items rule: spec_tree.induct) simp_all

lemma TreeView_spec: "TreeViewWithOptions items opts = TrimRight_nl (spec_tree [] items)"
  by (simp add: TreeViewWithOptions_def renderTreeItems_def renderLoop_spec)

text \<open>
  C9. The output of \<open>TreeViewWithOptions\<close> does not depend on the \<open>Last\<close> field of any
  item: two item sequences that differ only in \<open>Last\<close> fields render identically (whatever
  the options), because the output is the rendering by position among the siblings:
  corner glyph and three spaces of continuation for the final sibling, tee glyph and
  bar with two spaces otherwise.
\<close>

theorem TreeView_ignores_Last:
  "(map eraseLast xs = map eraseLast ys \<longrightarrow>
      TreeViewWithOptions xs o1 = TreeViewWithOptions ys o2)
   \<and> TreeViewWithOptions xs o1 = TrimRight_nl (spec_tree [] xs)"
  by (metis TreeView_spec spec_tree_eraseLast)

theorem TreeView_ignores_Last_witness:
  "map eraseLast
     [TreeItem ''a'' ''1'' [TreeItem ''c'' [] [] True, TreeItem ''d'' [] [] True] True,
      TreeItem ''b'' [] [] False]
   = map eraseLast
     [TreeItem ''a'' ''1'' [TreeItem ''c'' [] [] False, TreeItem ''d'' [] [] False] False,
      TreeItem ''b'' [] [] True]
   \<and> TreeViewWithOptions
     [TreeItem ''a'' ''1'' [TreeItem ''c'' [] [] True, TreeItem ''d'' [] [] True] True,
      TreeItem ''b'' [] [] False] DefaultOptions
   = TreeViewWithOptions
     [TreeItem ''a'' ''1'' [TreeItem ''c'' [] [] False, TreeItem ''d'' [] [] False] False,
      TreeItem ''b'' [] [] True] (DefaultOptions\<lparr>Emoji := False\<rparr>)
   \<and> TreeViewWithOptions
     [TreeItem ''a'' ''1'' [TreeItem ''c'' [] [] True, TreeItem ''d'' [] [] True] True,
      TreeItem ''b'' [] [] False] DefaultOptions
   = g_tee_l @ g_h @ '' a: 1'' @ [nl]
     @ g_v @ ''  '' @ g_tee_l @ g_h @ '' c'' @ [nl]
     @ g_v @ ''  '' @ g_bl @ g_h @ '' d'' @ [nl]
     @ g_bl @ g_h @ '' b''"
proof -
  let ?xs = "[TreeItem ''a'' ''1'' [TreeItem ''c'' [] [] True, TreeItem ''d'' [] [] True] True,
      TreeItem ''b'' [] [] False]"
  let ?ys = "[TreeItem ''a'' ''1'' [TreeItem ''c'' [] [] False, TreeItem ''d'' [] [] False] False,
      TreeItem ''b'' [] [] True]"
  note inst = TreeView_ignores_Last [of ?xs ?ys DefaultOptions "DefaultOptions\<lparr>Emoji := False\<rparr>"]
  have eq: "map eraseLast ?xs = map eraseLast ?ys"
    by simp
  have same: "TreeViewWithOptions ?xs DefaultOptions
      = TreeViewWithOptions ?ys (DefaultOptions\<lparr>Emoji := False\<rparr>)"
    using inst eq by blast
  have "TreeViewWithOptions ?xs DefaultOptions = TrimRight_nl (spec_tree [] ?xs)"
    using inst by blast
  then have out: "TreeViewWithOptions ?xs DefaultOptions
      = g_tee_l @ g_h @ '' a: 1'' @ [nl]
        @ g_v @ ''  '' @ g_tee_l @ g_h @ '' c'' @ [nl]
        @ g_v @ ''  '' @ g_bl @ g_h @ '' d'' @ [nl]
        @ g_bl @ g_h @ '' b''"
    by (simp add: TrimRight_nl_def nl_def glyph_defs)
  from eq same out show ?thesis by blast
qed


subsection \<open>Progress bar and bar chart\<close>


lemma Repeat_negative: "n < 0 \<Longrightarrow> Repeat s n = Inl NegativeRepeatCount"
  by (simp add: Repeat_def)

lemma Repeat_zero [simp]: "Repeat s 0 = Inr []"
  by (simp add: Repeat_def)

lemma wrap64_eval:
  "wrap64 (- 10) = - 10" "wrap64 40 = 40" "wrap64 (- 6) = - 6" "wrap64 4 = 4" "wrap64 0 = 0"
  "wrap64 60 = 60" "wrap64 2 = 2" "wrap64 14 = 14"
  by (simp_all add: wrap64_def)

lemma ProgressBar_narrow: "ProgressBarWithOptions rt 0 100 10 opts = Inl NegativeRepeatCount"
proof -
  have p: "f64_div (f64_of_int 0) (f64_of_int 100) = Finite 0"
    by (simp add: f64_of_int_eval f64_div_def f64_is_inf_def f64_is_zero_def f64_zero_def)
  have c: "\<not> f64_gt (Finite 0) (Finite 1)"
    by (simp add: f64_gt_def)
  have w: "wrap64 (10 - progressSpacing) = - 10"
    by (simp add: progressSpacing_def wrap64_eval)
  have f: "f64_to_int rt (f64_mul (Finite 0) (f64_of_int (- 10))) = 0"
    by (simp add: f64_of_int_eval f64_mul_def f64_is_inf_def f64_is_zero_def f64_zero_def
        f64_to_int_def)
  show ?thesis
    unfolding ProgressBarWithOptions_def Let_def p w
    by (simp add: c f wrap64_eval Repeat_negative)
qed

lemma BarChart_narrow:
  "BarChartWithOptions_iter rt [(''a'', 1)] [(''a'', 1)] 5 opts = Inl NegativeRepeatCount"
proof -
  have l: "f64_to_int rt (f64_mul (f64_div (f64_of_int 1) (f64_of_int 1)) (f64_of_int (- 6))) = - 6"
    by (simp add: f64_of_int_eval f64_eval)
  have "chartEntry rt 1 1 (- 6) opts (''a'', 1) = Inl NegativeRepeatCount"
    by (simp add: chartEntry_def l Repeat_negative)
  then show ?thesis
    by (simp add: BarChartWithOptions_iter_def labelSpacing_def wrap64_eval)
qed

lemma ProgressBar_negative: "ProgressBarWithOptions rt (- 50) 100 60 opts = Inl NegativeRepeatCount"
proof -
  have p: "f64_div (f64_of_int (- 50)) (f64_of_int 100) = Finite (- (1 / 2))"
    by (simp add: f64_of_int_eval f64_eval)
  have c: "\<not> f64_gt (Finite (- (1 / 2))) (Finite 1)"
    by (simp add: f64_gt_def)
  have w: "wrap64 (60 - progressSpacing) = 40"
    by (simp add: progressSpacing_def wrap64_eval)
  have f: "f64_to_int rt (f64_mul (Finite (- (1 / 2))) (f64_of_int 40)) = - 20"
    by (simp add: f64_of_int_eval f64_eval)
  show ?thesis
    unfolding ProgressBarWithOptions_def Let_def p w
    by (simp add: c f Repeat_negative)
qed

lemma digits_eval:
  "digits 0 = ''0''" "digits 1 = ''1''" "digits (Suc 0) = ''1''" "digits 2 = ''2''"
  "digits 10 = ''10''"
  "digits 100 = ''100''"
  by (simp_all add: digits.simps)

lemma ProgressBar_negative_shown:
  "ProgressBarWithOptions rt (- 1) 100 20 opts = Inr ''[] -1.0% (-1/100)''"
proof -
  have p: "f64_div (f64_of_int (- 1)) (f64_of_int 100)
      = Finite (- (5764607523034235 / 576460752303423488))"
    by (simp add: f64_of_int_eval f64_eval)
  have c: "\<not> f64_gt (Finite (- (5764607523034235 / 576460752303423488))) (Finite 1)"
    by (simp add: f64_gt_def)
  have w: "wrap64 (20 - progressSpacing) = 0"
    by (simp add: progressSpacing_def wrap64_eval)
  have f: "f64_to_int rt (f64_mul (Finite (- (5764607523034235 / 576460752303423488))) (f64_of_int 0)) = 0"
    by (simp add: f64_of_int_eval f64_mul_def f64_is_inf_def f64_is_zero_def f64_zero_def
        f64_to_int_def)
  have m: "f64_mul (Finite (- (5764607523034235 / 576460752303423488))) (f64_of_int percentMultiplier)
      = Finite (- 1)"
    by (simp add: percentMultiplier_def f64_of_int_eval f64_eval)
  have s: "FormatFloat_f (Suc 0) (Finite (- 1)) = ''-1.0''"
    by (simp add: FormatFloat_f_def fixed_def round_half_even_def digits_eval)
  show ?thesis
    unfolding ProgressBarWithOptions_def Let_def p w
    by (simp add: c f m s wrap64_eval fmt_d_def digits_eval)
qed

text \<open>
  C1. Not every layout function that returns only a string is total. With a width below
  the 20 columns that the progress bar reserves, the track width is negative and
  \<open>strings.Repeat\<close> panics on the negative count; the bar chart does the same when the
  width is below the longest label plus 10. Both calls below panic, whatever the options
  and the surroundings.
\<close>

theorem layout_functions_can_panic:
  "ProgressBarWithOptions rt 0 100 10 opts = Inl NegativeRepeatCount
   \<and> BarChartWithOptions_iter rt [(''a'', 1)] [(''a'', 1)] 5 opts = Inl NegativeRepeatCount"
  by (simp add: ProgressBar_narrow BarChart_narrow)

text \<open>
  C2. The percentage is clamped from above only. With a negative \<open>current\<close> the
  percentage stays negative: the filled length \<open>int(-0.5 * 40)\<close> is \<open>-20\<close> and the call
  panics in \<open>strings.Repeat\<close>; where the track is empty the call returns, and prints
  the negative percentage.
\<close>

theorem ProgressBar_negative_current:
  "ProgressBarWithOptions rt (- 50) 100 60 opts = Inl NegativeRepeatCount
   \<and> ProgressBarWithOptions rt (- 1) 100 20 opts = Inr ''[] -1.0% (-1/100)''"
  by (simp add: ProgressBar_negative ProgressBar_negative_shown)

subsection \<open>Bar chart and the order of map iteration\<close>


























subsection \<open>Symbols\<close>

lemma fallbacks_ascii:
  "\<forall>(key, emoji, fallback) \<in> set getEmojiMap. \<forall>c \<in> set fallback. of_char c \<le> (0x7E :: nat)"
  by (simp add: getEmojiMap_def)

text \<open>
  C8. With emoji disabled in the options, \<open>GetSymbol\<close> (an alias of \<open>GetEmoji\<close>)
  returns for every key a token of ASCII bytes only, none above \<open>0x7E\<close>: the fallback of
  the key's entry in the symbol table, and \<open>[?]\<close> for a key without an entry, whatever
  the terminal.
\<close>

theorem GetSymbol_plain_is_ascii:
  assumes "\<not> Emoji opts"
  shows "GetSymbol rt key opts
      = (case map_of getEmojiMap key of Some (emoji, fallback) \<Rightarrow> fallback | None \<Rightarrow> ''[?]'')
    \<and> (\<forall>c \<in> set (GetSymbol rt key opts). of_char c \<le> (0x7E :: nat))
    \<and> GetSymbol rt key opts = GetEmoji rt key opts"
proof (cases "map_of getEmojiMap key")
  case None
  with assms show ?thesis by (simp add: GetSymbol_def GetEmoji_def)
next
  case (Some entry)
  obtain emoji fallback where entry: "entry = (emoji, fallback)"
    by (cases entry)
  from Some entry have "(key, emoji, fallback) \<in> set getEmojiMap"
    by (simp add: map_of_SomeD)
  with fallbacks_ascii have "\<forall>c \<in> set fallback. of_char c \<le> (0x7E :: nat)"
    by blast
  with assms Some entry show ?thesis by (simp add: GetSymbol_def GetEmoji_def)
qed

theorem GetSymbol_plain_is_ascii_witness:
  "\<not> Emoji (DefaultOptions\<lparr>Emoji := False\<rparr>)
   \<and> GetSymbol xterm_runtime ''success'' (DefaultOptions\<lparr>Emoji := False\<rparr>) = ''[OK]''
   \<and> GetSymbol xterm_runtime ''no such key'' (DefaultOptions\<lparr>Emoji := False\<rparr>) = ''[?]''"
proof -
  have off: "\<not> Emoji (DefaultOptions\<lparr>Emoji := False\<rparr>)"
    by simp
  have known: "map_of getEmojiMap ''success''
      = Some ([CHR 0xE2, CHR 0x9C, CHR 0x85], ''[OK]'')"
    by (simp add: getEmojiMap_def)
  have unknown: "map_of getEmojiMap ''no such key'' = None"
    by (simp add: getEmojiMap_def)
  from GetSymbol_plain_is_ascii [OF off, of xterm_runtime "''success''"] known
  have a: "GetSymbol xterm_runtime ''success'' (DefaultOptions\<lparr>Emoji := False\<rparr>) = ''[OK]''"
    by simp
  from GetSymbol_plain_is_ascii [OF off, of xterm_runtime "''no such key''"] unknown
  have b: "GetSymbol xterm_runtime ''no such key'' (DefaultOptions\<lparr>Emoji := False\<rparr>) = ''[?]''"
    by simp
  from off a b show ?thesis by blast
qed

subsection \<open>Confidence bar\<close>


lemma upto_0_9: "[0..9] = [0, 1, 2, 3, 4, 5, 6, 7, 8, 9 :: int]"
  by (simp add: upto.simps)

lemma confidenceCells_spec:
  "confidenceCells b L f e [0..9] = b @ spec_bar f e (nat (min 10 (max 0 L)))"
proof -
  consider "L \<le> 0" | "L = 1" | "L = 2" | "L = 3" | "L = 4" | "L = 5" | "L = 6" | "L = 7"
    | "L = 8" | "L = 9" | "10 \<le> L"
    by linarith
  then show ?thesis
    by cases (simp_all add: upto_0_9 spec_bar_def eval_nat_numeral)
qed

lemma filledCells_le: "filledCells rt c \<le> 10"
  by (simp add: filledCells_def)

lemma filledCells_floor:
  assumes "f64_mul c (Finite 10) = Finite p" and "0 \<le> p" and "p < 11"
  shows "int (filledCells rt c) = \<lfloor>p\<rfloor>"
proof -
  have "0 \<le> \<lfloor>p\<rfloor>" "\<lfloor>p\<rfloor> \<le> 10"
    using assms(2,3) by (simp_all add: floor_le_iff)
  then show ?thesis
    using assms by (simp add: filledCells_def f64_to_int_def trunc_def)
qed

lemma filledCells_0_1: "filledCells rt (Finite 0) = 0" "filledCells rt (Finite 1) = 10"
  by (simp_all add: filledCells_def f64_eval)

lemma CreateConfidenceBar_text:
  "\<not> Emoji opts \<Longrightarrow>
   CreateConfidenceBar rt c opts = ''['' @ spec_bar ''#'' ''-'' (filledCells rt c) @ '']''"
  by (simp add: CreateConfidenceBar_def Let_def ConfidenceBarLength_def f64_of_int_eval
      confidenceCells_spec filledCells_def)

lemma CreateConfidenceBar_emoji:
  "Emoji opts \<Longrightarrow> supportsEmoji rt \<Longrightarrow>
   CreateConfidenceBar rt c opts = spec_bar g_full g_light (filledCells rt c)"
  by (simp add: CreateConfidenceBar_def Let_def ConfidenceBarLength_def f64_of_int_eval
      confidenceCells_spec filledCells_def)

lemma glyph_count_blocks:
  "glyph_count (concat (replicate n g_full)) = n" "glyph_count (concat (replicate n g_light)) = n"
  by (induction n) (simp_all add: glyph_count_def g_full_def g_light_def is_continuation_def)

lemma spec_bar_ten:
  assumes "k \<le> 10"
  shows "glyph_count (spec_bar g_full g_light k) = 10" and "length (spec_bar ''#'' ''-'' k) = 10"
proof -
  show "glyph_count (spec_bar g_full g_light k) = 10"
    unfolding spec_bar_def glyph_count_append glyph_count_blocks using assms by simp
  have "length (concat (replicate n [c])) = n" for n and c :: char
    by (induction n) simp_all
  then show "length (spec_bar ''#'' ''-'' k) = 10"
    unfolding spec_bar_def length_append using assms by simp
qed

lemma CreateConfidenceBar_plain:
  "Emoji opts \<Longrightarrow> \<not> supportsEmoji rt \<Longrightarrow>
   CreateConfidenceBar rt c opts = spec_bar ''#'' ''-'' (filledCells rt c)"
  by (simp add: CreateConfidenceBar_def Let_def ConfidenceBarLength_def f64_of_int_eval
      confidenceCells_spec filledCells_def)

text \<open>
  C7 (amended). For every confidence value, options and terminal the bar has ten cells,
  the first \<open>k\<close> of them filled, where \<open>k\<close> is \<open>int(confidence * 10)\<close>, the product
  being the \<open>float64\<close> product, cut to the range from 0 to 10; \<open>k\<close> is the floor of
  that product whenever the product lies in \<open>[0, 11)\<close>, it is 0 for confidence 0 and 10
  for confidence 1. The three cases of the options and the terminal: with emoji disabled
  the glyphs are \<open>#\<close> and \<open>-\<close> between brackets; with emoji enabled on a terminal that
  supports emoji they are the block glyphs without brackets; with emoji enabled on a
  terminal that does not support emoji they are \<open>#\<close> and \<open>-\<close> without brackets.
\<close>

theorem CreateConfidenceBar_cells:
  "(\<not> Emoji opts \<longrightarrow>
      CreateConfidenceBar rt c opts = ''['' @ spec_bar ''#'' ''-'' (filledCells rt c) @ '']'')
   \<and> (Emoji opts \<and> supportsEmoji rt \<longrightarrow>
      CreateConfidenceBar rt c opts = spec_bar g_full g_light (filledCells rt c))
   \<and> (Emoji opts \<and> \<not> supportsEmoji rt \<longrightarrow>
      CreateConfidenceBar rt c opts = spec_bar ''#'' ''-'' (filledCells rt c))
   \<and> length (spec_bar ''#'' ''-'' (filledCells rt c)) = 10
   \<and> glyph_count (spec_bar g_full g_light (filledCells rt c)) = 10
   \<and> filledCells rt c \<le> 10
   \<and> (\<forall>p. f64_mul c (Finite 10) = Finite p \<and> 0 \<le> p \<and> p < 11 \<longrightarrow>
          int (filledCells rt c) = \<lfloor>p\<rfloor>)
   \<and> filledCells rt (Finite 0) = 0
   \<and> filledCells rt (Finite 1) = 10"
  using CreateConfidenceBar_text [of opts rt c] CreateConfidenceBar_emoji [of opts rt c]
    CreateConfidenceBar_plain [of opts rt c] spec_bar_ten [OF filledCells_le [of rt c]]
  by (auto simp: filledCells_le filledCells_floor filledCells_0_1)

lemma supportsEmoji_eval: "supportsEmoji xterm_runtime" "\<not> supportsEmoji plain_runtime"
  by (simp_all add: supportsEmoji_def xterm_runtime_def plain_runtime_def)

theorem CreateConfidenceBar_cells_witness:
  "\<not> Emoji (DefaultOptions\<lparr>Emoji := False\<rparr>)
   \<and> CreateConfidenceBar plain_runtime (Finite (1 / 2)) (DefaultOptions\<lparr>Emoji := False\<rparr>)
       = ''[#####-----]''
   \<and> Emoji DefaultOptions \<and> supportsEmoji xterm_runtime
   \<and> CreateConfidenceBar xterm_runtime (Finite (1 / 2)) DefaultOptions
       = g_full @ g_full @ g_full @ g_full @ g_full @ g_light @ g_light @ g_light @ g_light @ g_light
   \<and> \<not> supportsEmoji plain_runtime
   \<and> CreateConfidenceBar plain_runtime (Finite (1 / 2)) DefaultOptions = ''#####-----''
   \<and> f64_mul (Finite (1 / 2)) (Finite 10) = Finite 5
   \<and> int (filledCells plain_runtime (Finite (1 / 2))) = \<lfloor>5 :: rat\<rfloor>"
proof -
  have off: "\<not> Emoji (DefaultOptions\<lparr>Emoji := False\<rparr>)" and on: "Emoji DefaultOptions"
    by (simp_all add: DefaultOptions_def)
  have prod: "f64_mul (Finite (1 / 2)) (Finite 10) = Finite 5"
    by (simp add: f64_eval)
  have k: "filledCells rt (Finite (1 / 2)) = 5" for rt
    by (simp add: filledCells_def prod f64_to_int_def trunc_def)
  note t = CreateConfidenceBar_cells [of "DefaultOptions\<lparr>Emoji := False\<rparr>" plain_runtime "Finite (1 / 2)"]
  note e = CreateConfidenceBar_cells [of DefaultOptions xterm_runtime "Finite (1 / 2)"]
  have a: "CreateConfidenceBar plain_runtime (Finite (1 / 2)) (DefaultOptions\<lparr>Emoji := False\<rparr>)
       = ''[#####-----]''"
    using t off by (simp add: k spec_bar_def eval_nat_numeral)
  have b: "CreateConfidenceBar xterm_runtime (Finite (1 / 2)) DefaultOptions
       = g_full @ g_full @ g_full @ g_full @ g_full @ g_light @ g_light @ g_light @ g_light @ g_light"
    using e on supportsEmoji_eval(1) by (simp add: k spec_bar_def eval_nat_numeral)
  note p = CreateConfidenceBar_cells [of DefaultOptions plain_runtime "Finite (1 / 2)"]
  have d: "CreateConfidenceBar plain_runtime (Finite (1 / 2)) DefaultOptions = ''#####-----''"
    using p on supportsEmoji_eval(2) by (simp add: k spec_bar_def eval_nat_numeral)
  have c: "int (filledCells plain_runtime (Finite (1 / 2))) = \<lfloor>5 :: rat\<rfloor>"
    using t prod by simp
  from off a on supportsEmoji_eval b d prod c show ?thesis by blast
qed

text \<open>
  The claim as worded fails twice: with emoji enabled on a terminal without emoji support
  the bar is drawn with \<open>#\<close> and \<open>-\<close>, and for confidence 2 the ten cells hold ten
  filled glyphs, not \<open>floor(2 * 10) = 20\<close>.
\<close>

theorem CreateConfidenceBar_claim_counterexample:
  "Emoji DefaultOptions
   \<and> CreateConfidenceBar plain_runtime (Finite (1 / 2)) DefaultOptions = ''#####-----''
   \<and> CreateConfidenceBar plain_runtime (Finite (1 / 2)) DefaultOptions
       \<noteq> claimed_ConfidenceBar (1 / 2) DefaultOptions
   \<and> CreateConfidenceBar plain_runtime (Finite 2) (DefaultOptions\<lparr>Emoji := False\<rparr>)
       = ''[##########]''
   \<and> CreateConfidenceBar plain_runtime (Finite 2) (DefaultOptions\<lparr>Emoji := False\<rparr>)
       \<noteq> claimed_ConfidenceBar 2 (DefaultOptions\<lparr>Emoji := False\<rparr>)"
proof -
  have half: "f64_to_int plain_runtime (f64_mul (Finite (1 / 2)) (Finite 10)) = 5"
    by (simp add: f64_eval)
  have two: "f64_to_int plain_runtime (f64_mul (Finite 2) (Finite 10)) = 20"
    by (simp add: f64_eval)
  have a: "CreateConfidenceBar plain_runtime (Finite (1 / 2)) DefaultOptions = ''#####-----''"
    by (simp add: CreateConfidenceBar_def Let_def half ConfidenceBarLength_def f64_of_int_eval
        supportsEmoji_eval DefaultOptions_def upto_0_9)
  have b: "CreateConfidenceBar plain_runtime (Finite 2) (DefaultOptions\<lparr>Emoji := False\<rparr>)
       = ''[##########]''"
    by (simp add: CreateConfidenceBar_def Let_def two ConfidenceBarLength_def f64_of_int_eval
        supportsEmoji_eval DefaultOptions_def upto_0_9)
  have c: "claimed_ConfidenceBar (1 / 2) DefaultOptions \<noteq> ''#####-----''"
    by (simp add: claimed_ConfidenceBar_def DefaultOptions_def spec_bar_def g_full_def
        eval_nat_numeral)
  have d: "claimed_ConfidenceBar 2 (DefaultOptions\<lparr>Emoji := False\<rparr>) \<noteq> ''[##########]''"
    by (simp add: claimed_ConfidenceBar_def DefaultOptions_def spec_bar_def eval_nat_numeral)
  from a b c d show ?thesis by (simp add: DefaultOptions_def)
qed

subsection \<open>Terminal formatter\<close>


lemma plain_byte_code:
  assumes "plain_byte c"
  shows "(of_char c :: nat) \<noteq> 0x22" and "(of_char c :: nat) \<noteq> 0x5C"
    and "0x20 \<le> (of_char c :: nat)" and "(of_char c :: nat) < 0x7F"
proof -
  have q: "(of_char (CHR 0x22) :: nat) = 0x22" and b: "(of_char (CHR 0x5C) :: nat) = 0x5C"
    by simp_all
  from assms have "c \<noteq> CHR 0x22" "c \<noteq> CHR 0x5C"
    by (simp_all add: plain_byte_def)
  then have "(of_char c :: nat) \<noteq> of_char (CHR 0x22)" "(of_char c :: nat) \<noteq> of_char (CHR 0x5C)"
    by (simp_all only: of_char_eq_iff) simp_all
  then show "(of_char c :: nat) \<noteq> 0x22" "(of_char c :: nat) \<noteq> 0x5C"
    unfolding q b by simp_all
  from assms show "0x20 \<le> (of_char c :: nat)" "(of_char c :: nat) < 0x7F"
    by (simp_all add: plain_byte_def)
qed

lemma appendEscapedRune_plain:
  assumes "plain_byte c"
  shows "appendEscapedRune lib buf (of_char c) = buf @ [c]"
  using plain_byte_code [OF assms]
  by (simp add: appendEscapedRune_def IsPrint_def encodeRune_def)

lemma quoteLoop_plain:
  "\<forall>c \<in> set s. plain_byte c \<Longrightarrow> quoteLoop lib buf s = buf @ s"
proof (induction s arbitrary: buf)
  case Nil
  show ?case by simp
next
  case (Cons c cs)
  then have p: "plain_byte c" and rest: "\<forall>c \<in> set cs. plain_byte c"
    by simp_all
  have small: "\<not> 0x80 \<le> (of_char c :: nat)" and ne: "(of_char c :: nat) \<noteq> RuneError"
    using plain_byte_code(4) [OF p] by (simp_all add: RuneError_def)
  have "quoteLoop lib buf (c # cs) = quoteLoop lib (appendEscapedRune lib buf (of_char c)) cs"
    using small ne by simp
  also have "\<dots> = (buf @ [c]) @ cs"
    unfolding appendEscapedRune_plain [OF p] by (rule Cons.IH [OF rest])
  finally show ?case by simp
qed

lemma Quote_plain: "\<forall>c \<in> set s. plain_byte c \<Longrightarrow> Quote lib s = [CHR 0x22] @ s @ [CHR 0x22]"
  by (simp add: Quote_def quoteLoop_plain)

lemma appendEscapedRune_extends: "\<exists>t. appendEscapedRune lib buf r = buf @ t"
  by (simp add: appendEscapedRune_def)

lemma quoteLoop_extends: "\<exists>t. quoteLoop lib buf s = buf @ t"
proof (induction lib buf s rule: quoteLoop.induct)
  case (1 lib buf)
  show ?case by simp
next
  case (2 lib buf c cs)
  obtain r width where
    d: "(if 0x80 \<le> (of_char c :: nat) then decodeRune (c # cs) else (of_char c, 1)) = (r, width)"
    by (cases "if 0x80 \<le> (of_char c :: nat) then decodeRune (c # cs) else (of_char c, 1)")
  have step: "quoteLoop lib buf (c # cs) =
      (if width = 1 \<and> r = RuneError
       then quoteLoop lib (buf @ [CHR 0x5C, CHR ''x''] @ hexpad 2 (of_char c)) cs
       else quoteLoop lib (appendEscapedRune lib buf r) (drop (width - 1) cs))"
    by (simp only: quoteLoop.simps(2) d prod.case)
  show ?case
  proof (cases "width = 1 \<and> r = RuneError")
    case True
    from "2.IH"(1) [OF d [symmetric] True] obtain t where
      "quoteLoop lib (buf @ [CHR 0x5C, CHR ''x''] @ hexpad 2 (of_char c)) cs
         = (buf @ [CHR 0x5C, CHR ''x''] @ hexpad 2 (of_char c)) @ t"
      by blast
    with step True have "quoteLoop lib buf (c # cs)
        = buf @ (([CHR 0x5C, CHR ''x''] @ hexpad 2 (of_char c)) @ t)"
      by simp
    then show ?thesis by blast
  next
    case False
    from "2.IH"(2) [OF d [symmetric] False] obtain t where
      t: "quoteLoop lib (appendEscapedRune lib buf r) (drop (width - 1) cs)
         = appendEscapedRune lib buf r @ t"
      by blast
    obtain u where u: "appendEscapedRune lib buf r = buf @ u"
      using appendEscapedRune_extends by blast
    from step False have "quoteLoop lib buf (c # cs)
        = quoteLoop lib (appendEscapedRune lib buf r) (drop (width - 1) cs)"
      by (simp only: if_False)
    also have "\<dots> = appendEscapedRune lib buf r @ t"
      by (rule t)
    also have "\<dots> = buf @ (u @ t)"
      unfolding u by simp
    finally show ?thesis by blast
  qed
qed

lemma cut_plain:
  "\<forall>c \<in> set str. plain_byte c \<Longrightarrow>
   \<forall>c \<in> set (if length str > 50 then take 47 str @ ''...'' else str). plain_byte c"
  by (auto simp: plain_byte_def dest: in_set_takeD)

text \<open>
  C4 (amended). In the record formatter a string field is rendered with the verb \<open>%q\<close>:
  a string longer than 50 bytes is first cut to its first 47 bytes followed by three dots,
  a string of at most 50 bytes is taken whole, and the result is written as a Go string
  literal, which always stands between double quotes. Where every byte of the string is
  printable ASCII other than the quote and the backslash, the literal is the text itself
  between the quotes, as the specification words it.
\<close>

theorem formatStringValue_quoted:
  "formatStringValue lib str = Quote lib (if length str > 50 then take 47 str @ ''...'' else str)
   \<and> (\<exists>body. formatStringValue lib str = [CHR 0x22] @ body @ [CHR 0x22])
   \<and> ((\<forall>c \<in> set str. plain_byte c) \<longrightarrow>
        formatStringValue lib str = claimed_formatStringValue str)"
proof -
  have a: "formatStringValue lib str
      = Quote lib (if length str > 50 then take 47 str @ ''...'' else str)"
    by (simp add: formatStringValue_def MaxFieldLength_def)
  obtain t where "quoteLoop lib [CHR 0x22] (if length str > 50 then take 47 str @ ''...'' else str)
      = [CHR 0x22] @ t"
    using quoteLoop_extends by blast
  then have b: "\<exists>body. formatStringValue lib str = [CHR 0x22] @ body @ [CHR 0x22]"
    unfolding a Quote_def by simp
  have c: "formatStringValue lib str = claimed_formatStringValue str"
    if "\<forall>c \<in> set str. plain_byte c"
    unfolding a claimed_formatStringValue_def
    by (rule Quote_plain) (rule cut_plain [OF that])
  from a b c show ?thesis by blast
qed

lemma quoteLoop_plain_step:
  assumes "plain_byte c"
  shows "quoteLoop lib buf (c # cs) = quoteLoop lib (buf @ [c]) cs"
proof -
  have "\<not> 0x80 \<le> (of_char c :: nat)" "(of_char c :: nat) \<noteq> RuneError"
    using plain_byte_code(4) [OF assms] by (simp_all add: RuneError_def)
  then have "quoteLoop lib buf (c # cs) = quoteLoop lib (appendEscapedRune lib buf (of_char c)) cs"
    by simp
  then show ?thesis
    unfolding appendEscapedRune_plain [OF assms] .
qed

lemma quoteLoop_quote_step:
  "quoteLoop lib buf (CHR 0x22 # cs) = quoteLoop lib (buf @ [CHR 0x5C, CHR 0x22]) cs"
proof -
  have c: "char_of (0x22 :: nat) = CHR 0x22"
    using char_of_char [of "CHR 0x22", where ?'a = nat] by simp
  show ?thesis
    by (simp add: RuneError_def appendEscapedRune_def c)
qed

lemma formatStringValue_quote_char:
  "formatStringValue lib [CHR ''a'', CHR 0x22, CHR ''b'']
     = [CHR 0x22, CHR ''a'', CHR 0x5C, CHR 0x22, CHR ''b'', CHR 0x22]"
proof -
  have p: "plain_byte CHR ''a''" "plain_byte CHR ''b''"
    by (simp_all add: plain_byte_def)
  have "quoteLoop lib [CHR 0x22] [CHR ''a'', CHR 0x22, CHR ''b'']
      = [CHR 0x22, CHR ''a'', CHR 0x5C, CHR 0x22, CHR ''b'']"
    unfolding quoteLoop_plain_step [OF p(1)] quoteLoop_quote_step quoteLoop_plain_step [OF p(2)]
    by simp
  then show ?thesis
    by (simp add: formatStringValue_def MaxFieldLength_def Quote_def del: quoteLoop.simps)
qed

text \<open>
  The claim as worded fails for a string that holds a double quote: \<open>%q\<close> escapes it,
  so the short string \<open>a"b\<close> is not rendered unmodified between quotes.
\<close>

theorem formatStringValue_claim_counterexample:
  "\<not> (\<forall>lib str. formatStringValue lib str = claimed_formatStringValue str)"
proof
  assume "\<forall>lib str. formatStringValue lib str = claimed_formatStringValue str"
  then have "\<forall>lib :: library. formatStringValue lib [CHR ''a'', CHR 0x22, CHR ''b'']
      = claimed_formatStringValue [CHR ''a'', CHR 0x22, CHR ''b'']"
    by blast
  then show False
    unfolding formatStringValue_quote_char by (simp add: claimed_formatStringValue_def)
qed

theorem formatStringValue_quoted_witness:
  "\<forall>lib. formatStringValue lib ''localhost'' = [CHR 0x22] @ ''localhost'' @ [CHR 0x22]
     \<and> formatStringValue lib (replicate 51 CHR ''a'')
         = [CHR 0x22] @ replicate 47 CHR ''a'' @ ''...'' @ [CHR 0x22]"
proof
  fix lib
  have p1: "\<forall>c \<in> set ''localhost''. plain_byte c"
    by (simp add: plain_byte_def)
  have p2: "\<forall>c \<in> set (replicate 51 CHR ''a''). plain_byte c"
    by (simp add: plain_byte_def)
  have a: "formatStringValue lib ''localhost'' = claimed_formatStringValue ''localhost''"
    using formatStringValue_quoted [of lib "''localhost''"] p1 by blast
  have b: "formatStringValue lib (replicate 51 CHR ''a'')
      = claimed_formatStringValue (replicate 51 CHR ''a'')"
    using formatStringValue_quoted [of lib "replicate 51 CHR ''a''"] p2 by blast
  show "formatStringValue lib ''localhost'' = [CHR 0x22] @ ''localhost'' @ [CHR 0x22]
     \<and> formatStringValue lib (replicate 51 CHR ''a'')
         = [CHR 0x22] @ replicate 47 CHR ''a'' @ ''...'' @ [CHR 0x22]"
    unfolding a b by (simp add: claimed_formatStringValue_def)
qed

text \<open>
  C10. \<open>Format\<close> applied to \<open>nil\<close> returns the empty byte slice and a \<open>nil\<close> error,
  for every formatter; neither the struct formatter nor the JSON fall-back is consulted.
\<close>

theorem Format_nil:
  "Format lib rt f INil = Inr (Inr [])"
  by (simp add: Format_def)

end
